theory Spec2Isabelle
  imports Complex_Main "HOL-Library.Sublist"
begin

chapter \<open>The model\<close>

section \<open>Paths and the file system\<close>

text \<open>
  A \<open>pathlib.Path\<close> is modelled by its \<open>parts\<close>: \<open>Path("specs/features")\<close> is
  \<open>[''specs'', ''features'']\<close>, and an absolute POSIX path starts with the part \<open>''/''\<close>.
  Paths are taken to be free of \<open>..\<close> parts and symbolic links, so that a path names a
  file system entry directly. The file system maps a path to the entry found there.
\<close>

type_synonym path = "string list"

datatype node = Dir | File string

type_synonym filesystem = "path \<rightharpoonup> node"

definition path_exists :: "filesystem \<Rightarrow> path \<Rightarrow> bool" where
  "path_exists fs p = (fs p \<noteq> None)"

definition is_dir :: "filesystem \<Rightarrow> path \<Rightarrow> bool" where
  "is_dir fs p = (fs p = Some Dir)"

definition is_absolute :: "path \<Rightarrow> bool" where
  "is_absolute p = (case p of [] \<Rightarrow> False | c # _ \<Rightarrow> c = ''/'')"

fun join_parts :: "string list \<Rightarrow> string" where
  "join_parts [] = ''''"
| "join_parts [c] = c"
| "join_parts (c # cs) = c @ ''/'' @ join_parts cs"

text \<open>\<open>str(path)\<close>, as the f-strings of the messages print it.\<close>

definition path_str :: "path \<Rightarrow> string" where
  "path_str p =
     (case p of
        [] \<Rightarrow> ''.''
      | c # cs \<Rightarrow> if c = ''/'' then ''/'' @ join_parts cs else join_parts (c # cs))"

text \<open>
  What the operating system refuses: \<open>os_error p = Some e\<close> says that a call on the path
  \<open>p\<close> (\<open>stat\<close>, \<open>mkdir\<close>) fails with an \<open>OSError\<close> that \<open>Path.exists\<close> does not swallow,
  such as a name that is too long or a directory that may not be searched, and that
  prints as \<open>e\<close>. With the Python 3.11 of the repository, \<open>Path.exists()\<close> and
  \<open>Path.is_dir()\<close> then raise.
\<close>

type_synonym os_errors = "path \<Rightarrow> string option"

text \<open>
  \<open>Path.mkdir(parents=True, exist_ok=True)\<close>: the directories on the way to the target
  are made from the top down; a part that exists as a directory is passed over, and a
  part that exists as something else, or that the operating system refuses, makes the
  call raise (the flag \<open>False\<close>), leaving what was made before it.
\<close>

fun mkdir_from :: "os_errors \<Rightarrow> filesystem \<Rightarrow> path \<Rightarrow> string list \<Rightarrow> bool \<times> filesystem" where
  "mkdir_from os_error fs base [] = (True, fs)"
| "mkdir_from os_error fs base (c # cs) =
     (case os_error (base @ [c]) of
        Some e \<Rightarrow> (False, fs)
      | None \<Rightarrow>
          (case fs (base @ [c]) of
             Some (File b) \<Rightarrow> (False, fs)
           | Some Dir \<Rightarrow> mkdir_from os_error fs (base @ [c]) cs
           | None \<Rightarrow> mkdir_from os_error (fs(base @ [c] \<mapsto> Dir)) (base @ [c]) cs))"

definition mkdir_parents :: "os_errors \<Rightarrow> filesystem \<Rightarrow> path \<Rightarrow> bool \<times> filesystem" where
  "mkdir_parents os_error fs p = mkdir_from os_error fs [] p"

section \<open>The directory creator\<close>

text \<open>
  \<open>MockFileOperation\<close>, without its wall-clock \<open>timestamp\<close>, \<open>MockCreationResult\<close>, and
  the list \<open>operations\<close> of \<open>MockBackupManager\<close>, to which \<open>track_operation\<close> appends
  whatever the session id is.
\<close>

record file_operation =
  operation_type :: string
  source_path :: "path option"
  target_path :: path

record creation_result =
  created_directories :: "path list"
  failed_directories :: "(path \<times> string) list"
  success :: bool
  errors :: "string list"
  warnings :: "string list"

definition track_operation ::
  "file_operation list \<Rightarrow> string \<Rightarrow> file_operation \<Rightarrow> file_operation list" where
  "track_operation ops session_id operation = ops @ [operation]"

text \<open>
  \<open>ensure_directory_exists\<close>: an existing path is accepted when it is a directory;
  otherwise the directory is made with its parents. The bare \<open>except\<close> turns every
  exception, of \<open>exists\<close> as of \<open>mkdir\<close>, into the answer \<open>False\<close>.
\<close>

definition ensure_directory_exists ::
  "os_errors \<Rightarrow> filesystem \<Rightarrow> path \<Rightarrow> bool \<times> filesystem" where
  "ensure_directory_exists os_error fs directory =
     (case os_error directory of
        Some e \<Rightarrow> (False, fs)
      | None \<Rightarrow>
          if path_exists fs directory then (is_dir fs directory, fs)
          else (case mkdir_parents os_error fs directory of
                  (False, fs') \<Rightarrow> (False, fs')
                | (True, fs') \<Rightarrow> (path_exists fs' directory \<and> is_dir fs' directory, fs')))"

text \<open>
  The state the loop of \<open>create_missing_directories\<close> works on: its four local lists,
  the file system and the operations tracked by the backup manager.
\<close>

record creator_state =
  cs_created :: "path list"
  cs_failed :: "(path \<times> string) list"
  cs_errors :: "string list"
  cs_warnings :: "string list"
  cs_fs :: filesystem
  cs_operations :: "file_operation list"

definition target_of :: "path \<Rightarrow> path \<Rightarrow> path" where
  "target_of project_dir missing_dir =
     (if is_absolute missing_dir then missing_dir else project_dir @ missing_dir)"

text \<open>
  One pass of the loop body. The \<open>try\<close> block raises when \<open>target_path.exists()\<close> does;
  the \<open>except Exception\<close> arm then records the failure under \<open>missing_dir\<close>, the
  directory as it was given, with the text of the exception.
\<close>

definition create_one ::
  "os_errors \<Rightarrow> path \<Rightarrow> string \<Rightarrow> creator_state \<Rightarrow> path \<Rightarrow> creator_state" where
  "create_one os_error project_dir session_id st missing_dir =
     (let target_path = target_of project_dir missing_dir in
      case os_error target_path of
        Some e \<Rightarrow>
          (let error_msg = ''Error creating directory '' @ path_str missing_dir @ '': '' @ e in
           st\<lparr>cs_errors := cs_errors st @ [error_msg],
              cs_failed := cs_failed st @ [(missing_dir, error_msg)]\<rparr>)
      | None \<Rightarrow>
          if path_exists (cs_fs st) target_path then
            (if is_dir (cs_fs st) target_path then
               st\<lparr>cs_warnings := cs_warnings st
                    @ [''Directory already exists: '' @ path_str target_path]\<rparr>
             else
               (let error_msg = ''Path exists but is not a directory: '' @ path_str target_path in
                st\<lparr>cs_errors := cs_errors st @ [error_msg],
                   cs_failed := cs_failed st @ [(target_path, error_msg)]\<rparr>))
          else
            (case ensure_directory_exists os_error (cs_fs st) target_path of
               (True, fs') \<Rightarrow>
                 st\<lparr>cs_created := cs_created st @ [target_path],
                    cs_fs := fs',
                    cs_operations := track_operation (cs_operations st) session_id
                      \<lparr>operation_type = ''CREATE'', source_path = None,
                       target_path = target_path\<rparr>\<rparr>
             | (False, fs') \<Rightarrow>
                 (let error_msg = ''Failed to create directory: '' @ path_str target_path in
                  st\<lparr>cs_errors := cs_errors st @ [error_msg],
                     cs_failed := cs_failed st @ [(target_path, error_msg)],
                     cs_fs := fs'\<rparr>)))"

fun create_loop ::
  "os_errors \<Rightarrow> path \<Rightarrow> string \<Rightarrow> creator_state \<Rightarrow> path list \<Rightarrow> creator_state" where
  "create_loop os_error project_dir session_id st [] = st"
| "create_loop os_error project_dir session_id st (d # ds) =
     create_loop os_error project_dir session_id
       (create_one os_error project_dir session_id st d) ds"

text \<open>
  The two ways the call raises: the exception of its own for a project directory that
  does not exist, and the \<open>OSError\<close> of \<open>project_dir.exists()\<close>, which stands outside
  the \<open>try\<close>.
\<close>

datatype error = ProjectDirectoryMissing string | OSError string

text \<open>
  \<open>create_missing_directories\<close>: a raise is the left summand; otherwise the result comes
  with the file system and the tracked operations as the call leaves them.
\<close>

definition create_missing_directories ::
  "os_errors \<Rightarrow> filesystem \<Rightarrow> file_operation list \<Rightarrow> path \<Rightarrow> path list \<Rightarrow> string
     \<Rightarrow> error + (creation_result \<times> filesystem \<times> file_operation list)" where
  "create_missing_directories os_error fs ops project_dir missing_dirs session_id =
     (case os_error project_dir of
        Some e \<Rightarrow> Inl (OSError e)
      | None \<Rightarrow>
          if \<not> path_exists fs project_dir then
            Inl (ProjectDirectoryMissing
                   (''Project directory does not exist: '' @ path_str project_dir))
          else
            (let st = create_loop os_error project_dir session_id
                        \<lparr>cs_created = [], cs_failed = [], cs_errors = [], cs_warnings = [],
                         cs_fs = fs, cs_operations = ops\<rparr> missing_dirs in
             Inr (\<lparr>created_directories = cs_created st,
                   failed_directories = cs_failed st,
                   success = (length (cs_failed st) = 0),
                   errors = cs_errors st,
                   warnings = cs_warnings st\<rparr>, cs_fs st, cs_operations st)))"

text \<open>
  What the specification says of one directory of the batch, to be compared with the
  loop: its outcome depends on the target alone, as the directories before it left the
  file system, and not on what failed before.
\<close>

datatype outcome = Unexaminable string | AlreadyDirectory | NotADirectory | Created | NotCreated

definition outcome_of :: "os_errors \<Rightarrow> filesystem \<Rightarrow> path \<Rightarrow> outcome" where
  "outcome_of os_error fs target =
     (case os_error target of
        Some e \<Rightarrow> Unexaminable e
      | None \<Rightarrow>
          (case fs target of
             Some Dir \<Rightarrow> AlreadyDirectory
           | Some (File b) \<Rightarrow> NotADirectory
           | None \<Rightarrow>
               (case mkdir_parents os_error fs target of
                  (ok, fs') \<Rightarrow> if ok \<and> fs' target = Some Dir then Created else NotCreated)))"

definition fs_after :: "os_errors \<Rightarrow> filesystem \<Rightarrow> path \<Rightarrow> filesystem" where
  "fs_after os_error fs target =
     (if outcome_of os_error fs target \<in> {Created, NotCreated}
      then snd (mkdir_parents os_error fs target) else fs)"

fun outcomes :: "os_errors \<Rightarrow> path \<Rightarrow> filesystem \<Rightarrow> path list \<Rightarrow> (path \<times> outcome) list" where
  "outcomes os_error project_dir fs [] = []"
| "outcomes os_error project_dir fs (d # ds) =
     (d, outcome_of os_error fs (target_of project_dir d))
       # outcomes os_error project_dir (fs_after os_error fs (target_of project_dir d)) ds"

fun final_fs :: "os_errors \<Rightarrow> path \<Rightarrow> filesystem \<Rightarrow> path list \<Rightarrow> filesystem" where
  "final_fs os_error project_dir fs [] = fs"
| "final_fs os_error project_dir fs (d # ds) =
     final_fs os_error project_dir (fs_after os_error fs (target_of project_dir d)) ds"

definition failure_of :: "path \<Rightarrow> path \<times> outcome \<Rightarrow> (path \<times> string) option" where
  "failure_of project_dir entry =
     (let target = target_of project_dir (fst entry) in
      case snd entry of
        Unexaminable e \<Rightarrow>
          Some (fst entry, ''Error creating directory '' @ path_str (fst entry) @ '': '' @ e)
      | NotADirectory \<Rightarrow>
          Some (target, ''Path exists but is not a directory: '' @ path_str target)
      | NotCreated \<Rightarrow> Some (target, ''Failed to create directory: '' @ path_str target)
      | AlreadyDirectory \<Rightarrow> None
      | Created \<Rightarrow> None)"

definition created_of :: "path \<Rightarrow> path \<times> outcome \<Rightarrow> path option" where
  "created_of project_dir entry =
     (if snd entry = Created then Some (target_of project_dir (fst entry)) else None)"

definition warning_of :: "path \<Rightarrow> path \<times> outcome \<Rightarrow> string option" where
  "warning_of project_dir entry =
     (if snd entry = AlreadyDirectory
      then Some (''Directory already exists: '' @ path_str (target_of project_dir (fst entry)))
      else None)"

definition create_operation :: "path \<Rightarrow> file_operation" where
  "create_operation target = \<lparr>operation_type = ''CREATE'', source_path = None, target_path = target\<rparr>"

definition no_os_error :: os_errors where
  "no_os_error p = None"

text \<open>
  The project of \<open>test_directory_creator\<close>: an empty project directory with the three
  directories asked for, and the same project with the plain file \<open>conflict\<close> in it.
\<close>

definition test_project :: filesystem where
  "test_project = [[''project''] \<mapsto> Dir]"

definition test_missing :: "path list" where
  "test_missing = [[''specs''], [''specs'', ''features''], [''docs'']]"

definition conflict_project :: filesystem where
  "conflict_project =
     [[''project''] \<mapsto> Dir, [''project'', ''conflict''] \<mapsto> File ''This is a file'']"

text \<open>
  A project directory that exists and that the operating system does not let examine,
  and a directory name that the operating system refuses.
\<close>

definition denied :: os_errors where
  "denied p = (if p = [''project''] then Some ''[Errno 13] Permission denied'' else None)"

definition long_name :: os_errors where
  "long_name p =
     (if p = [''project'', ''too_long''] then Some ''[Errno 36] File name too long'' else None)"

section \<open>Strings\<close>

text \<open>
  A Python \<open>str\<close> is modelled as a list of characters, one \<open>char\<close> for each code point;
  the model covers the code points below 256. On these, \<open>str.isspace\<close> and the class
  \<open>\s\<close> of \<open>re\<close> hold for the codes 9 to 13, 28 to 32, 133 and 160; the class \<open>\w\<close>
  holds for the digits, the letters, the underscore and the codes listed in
  \<open>is_word_char\<close>; and \<open>str.lower\<close> changes the codes 65 to 90 and 192 to 222 (215 apart)
  by adding 32.
\<close>

definition is_space :: "char \<Rightarrow> bool" where
  "is_space c =
     (let n = (of_char c :: nat) in
      (9 \<le> n \<and> n \<le> 13) \<or> (28 \<le> n \<and> n \<le> 32) \<or> n = 133 \<or> n = 160)"

definition is_word_char :: "char \<Rightarrow> bool" where
  "is_word_char c =
     (let n = (of_char c :: nat) in
      (48 \<le> n \<and> n \<le> 57) \<or> (65 \<le> n \<and> n \<le> 90) \<or> n = 95 \<or> (97 \<le> n \<and> n \<le> 122) \<or>
      n = 170 \<or> n = 178 \<or> n = 179 \<or> n = 181 \<or> n = 185 \<or> n = 186 \<or>
      (188 \<le> n \<and> n \<le> 190) \<or> (192 \<le> n \<and> n \<le> 214) \<or> (216 \<le> n \<and> n \<le> 246) \<or>
      248 \<le> n)"

definition lower_char :: "char \<Rightarrow> char" where
  "lower_char c =
     (let n = (of_char c :: nat) in
      if (65 \<le> n \<and> n \<le> 90) \<or> (192 \<le> n \<and> n \<le> 222 \<and> n \<noteq> 215)
      then char_of (n + 32) else c)"

definition lower :: "string \<Rightarrow> string" where
  "lower s = map lower_char s"

text \<open>\<open>str.strip()\<close> removes the white space at both ends.\<close>

definition strip :: "string \<Rightarrow> string" where
  "strip s = rev (dropWhile is_space (rev (dropWhile is_space s)))"

text \<open>
  \<open>str.split(sep)\<close> for a separator of one character: the pieces between the
  separators, empty pieces included, so that a string without separator is one piece.
\<close>

fun split_at :: "char \<Rightarrow> string \<Rightarrow> string \<Rightarrow> string list" where
  "split_at sep cur [] = [rev cur]"
| "split_at sep cur (c # cs) =
     (if c = sep then rev cur # split_at sep [] cs else split_at sep (c # cur) cs)"

definition split_lines :: "string \<Rightarrow> string list" where
  "split_lines content = split_at (CHR 0x0A) [] content"

text \<open>\<open>str.split()\<close> without separator: the maximal runs of characters that are not white space.\<close>

fun split_ws :: "string \<Rightarrow> string \<Rightarrow> string list" where
  "split_ws cur [] = (if cur = [] then [] else [rev cur])"
| "split_ws cur (c # cs) =
     (if is_space c then (if cur = [] then split_ws [] cs else rev cur # split_ws [] cs)
      else split_ws (c # cur) cs)"

definition split_words :: "string \<Rightarrow> string list" where
  "split_words s = split_ws [] s"

text \<open>Substring test, \<open>needle in haystack\<close>.\<close>

fun starts_with :: "string \<Rightarrow> string \<Rightarrow> bool" where
  "starts_with [] s = True"
| "starts_with (p # ps) [] = False"
| "starts_with (p # ps) (c # cs) = (p = c \<and> starts_with ps cs)"

fun contains :: "string \<Rightarrow> string \<Rightarrow> bool" where
  "contains needle [] = (needle = [])"
| "contains needle (c # cs) = (starts_with needle (c # cs) \<or> contains needle cs)"

text \<open>
  \<open>re.sub(r'\s+', ' ', s)\<close> replaces every maximal run of white space by one blank, and
  \<open>re.sub(r'[^\w\s]', '', s)\<close> deletes every character that is neither a word character
  nor white space.
\<close>

function collapse_ws :: "string \<Rightarrow> string" where
  "collapse_ws [] = []"
| "collapse_ws (c # cs) =
     (if is_space c then CHR '' '' # collapse_ws (dropWhile is_space cs)
      else c # collapse_ws cs)"
  by pat_completeness auto
termination
  by (relation "measure length") (auto simp: length_dropWhile_le less_Suc_eq_le)

definition strip_punctuation :: "string \<Rightarrow> string" where
  "strip_punctuation s = filter (\<lambda>c. is_word_char c \<or> is_space c) s"

text \<open>Decimal digits of a natural number, as \<open>str(n)\<close> and \<open>f"{n}"\<close> print it.\<close>

fun digits :: "nat \<Rightarrow> string" where
  "digits n = (if n < 10 then [char_of (48 + n)] else digits (n div 10) @ [char_of (48 + n mod 10)])"

declare digits.simps [simp del]

section \<open>Regular expressions\<close>

text \<open>
  The fragment of Python's \<open>re\<close> that the patterns of the aggregator use: a character
  class, concatenation, alternation, an optional item, one or more characters of a class
  (\<open>\s+\<close>, \<open>.+?\<close>) and the anchor \<open>$\<close>. A pattern is only ever asked whether it
  matches somewhere (\<open>pattern.search(line)\<close> is tested for truth), so greedy and lazy
  repetition are the same here, and groups need no numbers.
\<close>

datatype regex =
    Chr "char \<Rightarrow> bool"
  | Seq regex regex
  | Alt regex regex
  | Opt regex
  | Plus "char \<Rightarrow> bool"
  | EndOfString

text \<open>
  \<open>rmatch r s\<close> lists what can be left of \<open>s\<close> after \<open>r\<close> has matched at its start, so
  \<open>r\<close> matches at the start of \<open>s\<close> exactly when the list is not empty. \<open>$\<close> matches at
  the end of the string and before a line feed that ends it.
\<close>

fun plus_rests :: "(char \<Rightarrow> bool) \<Rightarrow> string \<Rightarrow> string list" where
  "plus_rests P [] = []"
| "plus_rests P (c # cs) = (if P c then cs # plus_rests P cs else [])"

fun rmatch :: "regex \<Rightarrow> string \<Rightarrow> string list" where
  "rmatch (Chr P) s = (case s of [] \<Rightarrow> [] | c # cs \<Rightarrow> if P c then [cs] else [])"
| "rmatch (Seq a b) s = concat (map (rmatch b) (rmatch a s))"
| "rmatch (Alt a b) s = rmatch a s @ rmatch b s"
| "rmatch (Opt a) s = rmatch a s @ [s]"
| "rmatch (Plus P) s = plus_rests P s"
| "rmatch EndOfString s = (if s = [] \<or> s = [CHR 0x0A] then [s] else [])"

text \<open>\<open>pattern.search(s)\<close> as a truth value: the pattern matches at some position of \<open>s\<close>.\<close>

fun search :: "regex \<Rightarrow> string \<Rightarrow> bool" where
  "search r [] = (rmatch r [] \<noteq> [])"
| "search r (c # cs) = (if rmatch r (c # cs) = [] then search r cs else True)"

text \<open>
  The building blocks of the patterns: a literal under \<open>re.IGNORECASE\<close>, which on the
  code points below 256 matches the characters with the same lower case; \<open>\s+\<close>; \<open>.+?\<close>
  with and without \<open>re.DOTALL\<close>; and the closing \<open>(?:\.|$)\<close>.
\<close>

definition ichar :: "char \<Rightarrow> regex" where
  "ichar l = Chr (\<lambda>c. lower_char c = lower_char l)"

fun lit :: "string \<Rightarrow> regex" where
  "lit [] = Opt EndOfString"
| "lit [l] = ichar l"
| "lit (l # ls) = Seq (ichar l) (lit ls)"

definition spaces :: regex where
  "spaces = Plus is_space"

definition some_dotall :: regex where
  "some_dotall = Plus (\<lambda>c. True)"

definition some_chars :: regex where
  "some_chars = Plus (\<lambda>c. c \<noteq> CHR 0x0A)"

definition stop :: regex where
  "stop = Alt (Chr (\<lambda>c. c = CHR ''.'')) EndOfString"

fun seqs :: "regex list \<Rightarrow> regex" where
  "seqs [] = Opt EndOfString"
| "seqs [r] = r"
| "seqs (r # rs) = Seq r (seqs rs)"

fun alts :: "regex list \<Rightarrow> regex" where
  "alts [] = Chr (\<lambda>c. False)"
| "alts [r] = r"
| "alts (r # rs) = Alt r (alts rs)"

section \<open>The requirements aggregator\<close>

text \<open>
  \<open>RequirementType\<close> and \<open>ExtractedRequirement\<close>. The fields \<open>text\<close> and \<open>context\<close> are
  \<open>req_text\<close> and \<open>req_context\<close> here; the confidence, a float in the source, is a
  rational number; the wall-clock \<open>extraction_timestamp\<close> is left out.
\<close>

datatype RequirementType = EARS | GENERAL | USER_STORY

record extracted_requirement =
  req_text :: string
  source_file :: path
  line_number :: nat
  requirement_type :: RequirementType
  confidence :: rat
  req_context :: string

text \<open>The three pattern families of \<open>__init__\<close>, in the order of their lists.\<close>

definition ears_patterns :: "regex list" where
  "ears_patterns =
     [seqs [lit ''WHEN'', spaces, some_dotall, spaces, lit ''THEN'', spaces, some_dotall, spaces,
            lit ''SHALL'', spaces, some_dotall, stop],
      seqs [lit ''IF'', spaces, some_dotall, spaces, lit ''THEN'', spaces, some_dotall, spaces,
            lit ''SHALL'', spaces, some_dotall, stop],
      seqs [lit ''GIVEN'', spaces, some_dotall, spaces, lit ''WHEN'', spaces, some_dotall, spaces,
            lit ''THEN'', spaces, some_dotall, stop]]"

definition modal :: regex where
  "modal = alts [lit ''must'', lit ''shall'', lit ''should'', lit ''will'']"

definition general_requirement_patterns :: "regex list" where
  "general_requirement_patterns =
     [seqs [alts [lit ''system'', lit ''application'', lit ''feature'', lit ''component'',
                  lit ''user''],
            spaces, modal, spaces, some_chars, stop],
      seqs [modal, spaces,
            alts [lit ''be able to'', lit ''support'', lit ''provide'', lit ''allow'',
                  lit ''enable''],
            spaces, some_chars, stop],
      seqs [alts [lit ''it'', lit ''this''], spaces, modal, spaces, some_chars, stop]]"

definition comma :: regex where
  "comma = Opt (Chr (\<lambda>c. c = CHR '',''))"

definition user_story_patterns :: "regex list" where
  "user_story_patterns =
     [seqs [lit ''As'', spaces, lit ''a'', spaces, some_dotall, comma, spaces, lit ''I'', spaces,
            lit ''want'', spaces, some_dotall, comma, spaces, lit ''so'', spaces, lit ''that'',
            spaces, some_dotall, stop],
      seqs [lit ''As'', spaces, lit ''a'', Opt (ichar CHR ''n''), spaces, some_dotall, comma,
            spaces, lit ''I'', spaces, lit ''need'', spaces, some_dotall, spaces, lit ''to'',
            spaces, some_dotall, stop]]"

text \<open>\<open>_get_context\<close>, called with a \<open>max_length\<close> of 50 only.\<close>

definition get_context :: "string \<Rightarrow> nat \<Rightarrow> string" where
  "get_context line max_length =
     (if length line \<le> max_length then line else take (max_length - 3) line @ ''...'')"

text \<open>
  \<open>_extract_ears_requirement\<close>, \<open>_extract_general_requirement\<close> and
  \<open>_extract_user_story\<close>: each runs through the patterns of its family and returns a
  record at the first one that matches, \<open>None\<close> when none does.
\<close>

fun extract_ears_requirement_from ::
  "regex list \<Rightarrow> string \<Rightarrow> path \<Rightarrow> nat \<Rightarrow> extracted_requirement option" where
  "extract_ears_requirement_from [] line file_path line_num = None"
| "extract_ears_requirement_from (pattern # patterns) line file_path line_num =
     (if search pattern line then
        Some \<lparr>req_text = strip line, source_file = file_path, line_number = line_num,
              requirement_type = EARS, confidence = 9 / 10, req_context = get_context line 50\<rparr>
      else extract_ears_requirement_from patterns line file_path line_num)"

definition extract_ears_requirement ::
  "string \<Rightarrow> path \<Rightarrow> nat \<Rightarrow> extracted_requirement option" where
  "extract_ears_requirement = extract_ears_requirement_from ears_patterns"

fun extract_general_requirement_from ::
  "regex list \<Rightarrow> string \<Rightarrow> path \<Rightarrow> nat \<Rightarrow> extracted_requirement option" where
  "extract_general_requirement_from [] line file_path line_num = None"
| "extract_general_requirement_from (pattern # patterns) line file_path line_num =
     (if search pattern line then
        Some \<lparr>req_text = strip line, source_file = file_path, line_number = line_num,
              requirement_type = GENERAL, confidence = 7 / 10, req_context = get_context line 50\<rparr>
      else extract_general_requirement_from patterns line file_path line_num)"

definition extract_general_requirement ::
  "string \<Rightarrow> path \<Rightarrow> nat \<Rightarrow> extracted_requirement option" where
  "extract_general_requirement = extract_general_requirement_from general_requirement_patterns"

fun extract_user_story_from ::
  "regex list \<Rightarrow> string \<Rightarrow> path \<Rightarrow> nat \<Rightarrow> extracted_requirement option" where
  "extract_user_story_from [] line file_path line_num = None"
| "extract_user_story_from (pattern # patterns) line file_path line_num =
     (if search pattern line then
        Some \<lparr>req_text = strip line, source_file = file_path, line_number = line_num,
              requirement_type = USER_STORY, confidence = 8 / 10, req_context = get_context line 50\<rparr>
      else extract_user_story_from patterns line file_path line_num)"

definition extract_user_story ::
  "string \<Rightarrow> path \<Rightarrow> nat \<Rightarrow> extracted_requirement option" where
  "extract_user_story = extract_user_story_from user_story_patterns"

text \<open>
  The loop of \<open>extract_requirements\<close> over \<open>enumerate(lines, 1)\<close>, with the list
  \<open>requirements\<close> it appends to.
\<close>

fun extract_loop ::
  "path \<Rightarrow> nat \<Rightarrow> string list \<Rightarrow> extracted_requirement list \<Rightarrow> extracted_requirement list" where
  "extract_loop file_path line_num [] requirements = requirements"
| "extract_loop file_path line_num (raw # lines) requirements =
     (let line = strip raw in
      if line = [] then extract_loop file_path (Suc line_num) lines requirements
      else
        (case extract_ears_requirement line file_path line_num of
           Some ears_req \<Rightarrow>
             extract_loop file_path (Suc line_num) lines (requirements @ [ears_req])
         | None \<Rightarrow>
             (case extract_general_requirement line file_path line_num of
                Some general_req \<Rightarrow>
                  extract_loop file_path (Suc line_num) lines (requirements @ [general_req])
              | None \<Rightarrow>
                  (case extract_user_story line file_path line_num of
                     Some user_story \<Rightarrow>
                       extract_loop file_path (Suc line_num) lines (requirements @ [user_story])
                   | None \<Rightarrow> extract_loop file_path (Suc line_num) lines requirements))))"

definition extract_requirements :: "string \<Rightarrow> path \<Rightarrow> extracted_requirement list" where
  "extract_requirements content file_path = extract_loop file_path 1 (split_lines content) []"

text \<open>
  What the specification says of a line, to be compared with the loop: the first of the
  families EARS, general, user story with a pattern that matches the stripped line gives
  the type and the confidence of the one record of the line; a blank line and a line
  that no family matches give none.
\<close>

definition first_matching_family :: "string \<Rightarrow> RequirementType option" where
  "first_matching_family line =
     (if list_ex (\<lambda>p. search p line) ears_patterns then Some EARS
      else if list_ex (\<lambda>p. search p line) general_requirement_patterns then Some GENERAL
      else if list_ex (\<lambda>p. search p line) user_story_patterns then Some USER_STORY
      else None)"

definition confidence_of :: "RequirementType \<Rightarrow> rat" where
  "confidence_of t = (case t of EARS \<Rightarrow> 9 / 10 | GENERAL \<Rightarrow> 7 / 10 | USER_STORY \<Rightarrow> 8 / 10)"

definition record_of_line :: "path \<Rightarrow> nat \<times> string \<Rightarrow> extracted_requirement option" where
  "record_of_line file_path numbered =
     (let line = strip (snd numbered) in
      if line = [] then None
      else map_option
        (\<lambda>t. \<lparr>req_text = line, source_file = file_path, line_number = fst numbered,
               requirement_type = t, confidence = confidence_of t,
               req_context = get_context line 50\<rparr>)
        (first_matching_family line))"

definition requirements_by_line :: "string \<Rightarrow> path \<Rightarrow> extracted_requirement list" where
  "requirements_by_line content file_path =
     List.map_filter (record_of_line file_path) (List.enumerate 1 (split_lines content))"

text \<open>
  \<open>_normalize_text\<close>: lower case, stripped, white space collapsed, then punctuation
  deleted.
\<close>

definition normalize_text :: "string \<Rightarrow> string" where
  "normalize_text t = strip_punctuation (collapse_ws (strip (lower t)))"

text \<open>
  \<open>_are_similar\<close>. The quotient of the two counts and the threshold are floats in the
  source and rational numbers here. The comparison \<open>similarity >= threshold\<close> comes out
  the same for the default threshold: the float \<open>0.8\<close> is the rounding of 4/5, rounding
  is monotone, and a quotient of counts below 4/5 is at least 1/(5 union) below it, far
  more than the rounding error for any number of words a text can have.
\<close>

definition are_similar :: "string \<Rightarrow> string \<Rightarrow> rat \<Rightarrow> bool" where
  "are_similar text1 text2 threshold =
     (let norm1 = normalize_text text1;
          norm2 = normalize_text text2;
          words1 = set (split_words norm1);
          words2 = set (split_words norm2)
      in if words1 = {} \<or> words2 = {} then False
         else
           (let intersection = card (words1 \<inter> words2);
                union = card (words1 \<union> words2);
                similarity = (if union > 0 then of_nat intersection / of_nat union else 0)
            in similarity \<ge> threshold))"

text \<open>The inner loop of \<open>deduplicate_requirements\<close>, which stops at the first similar text.\<close>

fun is_similar_to_any :: "extracted_requirement \<Rightarrow> extracted_requirement list \<Rightarrow> bool" where
  "is_similar_to_any req [] = False"
| "is_similar_to_any req (existing_req # rest) =
     (if are_similar (req_text req) (req_text existing_req) (8 / 10) then True
      else is_similar_to_any req rest)"

text \<open>The outer loop, with \<open>unique_requirements\<close> and \<open>seen_texts\<close>.\<close>

fun dedup_loop ::
  "extracted_requirement list \<Rightarrow> string set \<Rightarrow> extracted_requirement list
     \<Rightarrow> extracted_requirement list" where
  "dedup_loop unique_requirements seen_texts [] = unique_requirements"
| "dedup_loop unique_requirements seen_texts (req # rest) =
     (let normalized_text = normalize_text (req_text req) in
      if normalized_text \<in> seen_texts then dedup_loop unique_requirements seen_texts rest
      else if is_similar_to_any req unique_requirements
        then dedup_loop unique_requirements seen_texts rest
      else dedup_loop (unique_requirements @ [req]) (insert normalized_text seen_texts) rest)"

definition deduplicate_requirements ::
  "extracted_requirement list \<Rightarrow> extracted_requirement list" where
  "deduplicate_requirements requirements =
     (if requirements = [] then [] else dedup_loop [] {} requirements)"

text \<open>
  \<open>format_as_ears\<close>. The text of \<open>datetime.now().strftime(...)\<close> and the formatting
  \<open>{confidence:.2f}\<close> of a float are arguments of the model. \<open>Path.name\<close> is the last part
  of a path, empty for a path without parts and for the root.
\<close>

definition path_name :: "path \<Rightarrow> string" where
  "path_name p = (case rev p of [] \<Rightarrow> '''' | c # _ \<Rightarrow> if c = ''/'' then '''' else c)"

fun join_lines :: "string list \<Rightarrow> string" where
  "join_lines [] = ''''"
| "join_lines [l] = l"
| "join_lines (l # ls) = l @ [CHR 0x0A] @ join_lines ls"

definition requirement_block ::
  "(rat \<Rightarrow> string) \<Rightarrow> nat \<times> extracted_requirement \<Rightarrow> string list" where
  "requirement_block fmt2f numbered =
     [''### Requirement '' @ digits (fst numbered),
      '''',
      ''**Text:** '' @ req_text (snd numbered),
      ''**Source:** '' @ path_name (source_file (snd numbered)) @ '':''
         @ digits (line_number (snd numbered)),
      ''**Confidence:** '' @ fmt2f (confidence (snd numbered)),
      '''']"

definition format_as_ears ::
  "string \<Rightarrow> (rat \<Rightarrow> string) \<Rightarrow> extracted_requirement list \<Rightarrow> string" where
  "format_as_ears now fmt2f requirements =
     (let formatted_lines =
            [''# Requirements Aggregate'',
             '''',
             ''This document contains all requirements extracted from the project documentation,'',
             ''formatted in EARS (Easy Approach to Requirements Syntax) format.'',
             '''',
             ''**Generated:** '' @ now,
             ''**Total Requirements:** '' @ digits (length requirements),
             ''''];
          ears_reqs = filter (\<lambda>r. requirement_type r = EARS) requirements;
          general_reqs = filter (\<lambda>r. requirement_type r = GENERAL) requirements;
          user_stories = filter (\<lambda>r. requirement_type r = USER_STORY) requirements
      in join_lines
           (if ears_reqs \<noteq> [] then
              formatted_lines @ [''## EARS Format Requirements'', ''''] @
              concat (map (requirement_block fmt2f) (List.enumerate 1 ears_reqs))
            else formatted_lines))"

text \<open>
  A document of five lines: one that both the EARS and the general family match, a
  blank one, a general statement, a user story and a line that is no requirement.
\<close>

definition sample_content :: string where
  "sample_content = ''WHEN a THEN system SHALL b'' @ [CHR 0x0A] @ [CHR 0x0A] @ ''  it must c''
     @ [CHR 0x0A] @ ''As a u, I want v, so that w'' @ [CHR 0x0A] @ ''note''"

text \<open>
  The quantities the specification of the deduplication speaks of: the normalized text of
  a requirement, and the Jaccard similarity of the sets of words of two texts, which is
  taken to be 0 when neither text has a word.
\<close>

definition norm_of :: "extracted_requirement \<Rightarrow> string" where
  "norm_of r = normalize_text (req_text r)"

definition word_set :: "string \<Rightarrow> string set" where
  "word_set t = set (split_words (normalize_text t))"

definition jaccard :: "string \<Rightarrow> string \<Rightarrow> rat" where
  "jaccard text1 text2 =
     (if card (word_set text1 \<union> word_set text2) > 0
      then of_nat (card (word_set text1 \<inter> word_set text2))
             / of_nat (card (word_set text1 \<union> word_set text2))
      else 0)"

text \<open>
  \<open>accepts K x\<close>: the loop appends \<open>x\<close> when \<open>K\<close> is the list of the requirements kept so
  far. \<open>dedup\<close> is the loop from its initial state, and a list is \<open>well_separated\<close> when
  each of its members is accepted by the members before it.
\<close>

definition accepts :: "extracted_requirement list \<Rightarrow> extracted_requirement \<Rightarrow> bool" where
  "accepts K x \<longleftrightarrow> norm_of x \<notin> norm_of ` set K \<and> \<not> is_similar_to_any x K"

definition dedup :: "extracted_requirement list \<Rightarrow> extracted_requirement list" where
  "dedup xs = dedup_loop [] {} xs"

definition well_separated :: "extracted_requirement list \<Rightarrow> bool" where
  "well_separated K \<longleftrightarrow> (\<forall>i<length K. accepts (take i K) (K ! i))"

text \<open>
  The requirements of the deduplication test of \<open>test_basic_functionality\<close>: the same
  sentence found in two files, and a different one.
\<close>

definition validate1 :: extracted_requirement where
  "validate1 = \<lparr>req_text = ''The system must validate input'', source_file = [''test1.md''],
     line_number = 1, requirement_type = GENERAL, confidence = 7 / 10, req_context = ''context1''\<rparr>"

definition validate2 :: extracted_requirement where
  "validate2 = \<lparr>req_text = ''The system must validate input'', source_file = [''test2.md''],
     line_number = 2, requirement_type = GENERAL, confidence = 7 / 10, req_context = ''context2''\<rparr>"

definition encrypt3 :: extracted_requirement where
  "encrypt3 = \<lparr>req_text = ''The system must encrypt data'', source_file = [''test3.md''],
     line_number = 3, requirement_type = GENERAL, confidence = 7 / 10, req_context = ''context3''\<rparr>"

text \<open>
  A sentence of four words; a sentence found in two files that adds a fifth word to it,
  so that the similarity is exactly 4/5; and one found in two files that adds a sixth.
\<close>

definition log0 :: extracted_requirement where
  "log0 = \<lparr>req_text = ''The system must log'', source_file = [''z.md''],
     line_number = 7, requirement_type = GENERAL, confidence = 7 / 10, req_context = []\<rparr>"

definition log1_again :: extracted_requirement where
  "log1_again = \<lparr>req_text = ''the system must log errors.'', source_file = [''d.md''],
     line_number = 2, requirement_type = GENERAL, confidence = 7 / 10, req_context = []\<rparr>"

definition log1 :: extracted_requirement where
  "log1 = \<lparr>req_text = ''The system must log errors'', source_file = [''a.md''],
     line_number = 1, requirement_type = GENERAL, confidence = 7 / 10, req_context = ''''\<rparr>"

definition log2 :: extracted_requirement where
  "log2 = \<lparr>req_text = ''The system must log all errors.'', source_file = [''b.md''],
     line_number = 1, requirement_type = GENERAL, confidence = 7 / 10, req_context = ''''\<rparr>"

definition log3 :: extracted_requirement where
  "log3 = \<lparr>req_text = ''the system must log all errors'', source_file = [''c.md''],
     line_number = 4, requirement_type = GENERAL, confidence = 7 / 10, req_context = ''''\<rparr>"

section \<open>The classifier\<close>

text \<open>
  The scoring of \<open>test_classifier_logic\<close>. The dictionary \<open>scores\<close> has the keys
  \<open>features\<close>, \<open>fixes\<close>, \<open>reference\<close>, in this order, and is a function on the categories
  here. The weights 0.4, 0.3 and 0.2 are floats in the source and rational numbers here:
  a score is the sum of at most three of them, added in the same order for every
  category, so the float sums are equal, and ordered, exactly as the rational ones.
\<close>

datatype category = Features | Fixes | Reference

definition categories :: "category list" where
  "categories = [Features, Fixes, Reference]"

fun any_in :: "string list \<Rightarrow> string \<Rightarrow> bool" where
  "any_in [] s = False"
| "any_in (w # ws) s = (if contains w s then True else any_in ws s)"

definition add_score :: "(category \<Rightarrow> rat) \<Rightarrow> category \<Rightarrow> rat \<Rightarrow> (category \<Rightarrow> rat)" where
  "add_score scores c w = scores(c := scores c + w)"

text \<open>The \<open>if\<close>/\<open>elif\<close> chain on the file name: at most one category gets its 0.4.\<close>

definition filename_scoring :: "string \<Rightarrow> (category \<Rightarrow> rat) \<Rightarrow> (category \<Rightarrow> rat)" where
  "filename_scoring filename scores =
     (if any_in [''feature'', ''spec'', ''requirement''] (lower filename)
        then add_score scores Features (4 / 10)
      else if any_in [''fix'', ''bug'', ''issue''] (lower filename)
        then add_score scores Fixes (4 / 10)
      else if any_in [''api'', ''guide'', ''reference''] (lower filename)
        then add_score scores Reference (4 / 10)
      else scores)"

text \<open>The six independent \<open>if\<close>s on the content, in the order of the source.\<close>

definition content_scoring :: "string \<Rightarrow> (category \<Rightarrow> rat) \<Rightarrow> (category \<Rightarrow> rat)" where
  "content_scoring content scores =
     (let content_lower = lower content;
          s1 = (if any_in [''as a'', ''user story'', ''system shall''] content_lower
                then add_score scores Features (3 / 10) else scores);
          s2 = (if any_in [''feature'', ''requirement'', ''specification''] content_lower
                then add_score s1 Features (2 / 10) else s1);
          s3 = (if any_in [''fixed'', ''resolved'', ''bug''] content_lower
                then add_score s2 Fixes (3 / 10) else s2);
          s4 = (if any_in [''error'', ''issue'', ''problem''] content_lower
                then add_score s3 Fixes (2 / 10) else s3);
          s5 = (if any_in [''this document'', ''api endpoint'', ''usage example''] content_lower
                then add_score s4 Reference (3 / 10) else s4);
          s6 = (if any_in [''documentation'', ''guide'', ''reference''] content_lower
                then add_score s5 Reference (2 / 10) else s5)
      in s6)"

definition scores_of :: "string \<Rightarrow> string \<Rightarrow> (category \<Rightarrow> rat)" where
  "scores_of filename content = content_scoring content (filename_scoring filename (\<lambda>c. 0))"

text \<open>
  \<open>max(keys, key=...)\<close> goes through the keys in their order and keeps the first one
  whose value no later one exceeds: a later key replaces the best one only when its
  value is strictly greater.
\<close>

fun max_by :: "('a \<Rightarrow> rat) \<Rightarrow> 'a \<Rightarrow> 'a list \<Rightarrow> 'a" where
  "max_by key best [] = best"
| "max_by key best (k # ks) = (if key k > key best then max_by key k ks else max_by key best ks)"

definition predicted :: "string \<Rightarrow> string \<Rightarrow> category" where
  "predicted filename content =
     max_by (scores_of filename content) (hd categories) (tl categories)"

definition classifier_confidence :: "string \<Rightarrow> string \<Rightarrow> rat" where
  "classifier_confidence filename content =
     scores_of filename content (predicted filename content)"





section \<open>The structure validator\<close>

text \<open>
  Modelled from the spec: \<open>StructureValidator.generate_compliance_score\<close>, which the test
  imports from \<open>organize.structure_validator\<close>; only its calls are in the sources. The
  specification gives the score as existing / (existing + missing), and 1.0 when both
  counts are zero, and the values at (0, 0), (n, n) and (10, 7), which make the first
  argument the number of expected directories and the second the number found of
  them. The float quotient is a rational number here.
\<close>

definition generate_compliance_score :: "nat \<Rightarrow> nat \<Rightarrow> rat" where
  "generate_compliance_score total_expected found =
     (let existing = found;
          missing = total_expected - found
      in if existing = 0 \<and> missing = 0 then 1
         else of_nat existing / of_nat (existing + missing))"

chapter \<open>Properties\<close>

section \<open>The directory creator\<close>

lemma mkdir_from_keeps: "fs p = Some n \<Longrightarrow> snd (mkdir_from E fs base cs) p = Some n"
proof (induction E fs base cs rule: mkdir_from.induct)
  case (1 E fs base)
  then show ?case by simp
next
  case (2 E fs base c cs)
  show ?case
  proof (cases "E (base @ [c])")
    case (Some e)
    then show ?thesis using "2.prems" by simp
  next
    case noerr: None
    show ?thesis
    proof (cases "fs (base @ [c])")
      case None
      with "2.prems" have "p \<noteq> base @ [c]" by auto
      with "2.prems" have "(fs(base @ [c] \<mapsto> Dir)) p = Some n" by simp
      with "2.IH" None noerr show ?thesis by (simp del: fun_upd_apply)
    next
      case (Some a)
      with 2 noerr show ?thesis by (cases a) auto
    qed
  qed
qed

lemma fs_after_keeps: "fs p = Some n \<Longrightarrow> fs_after E fs t p = Some n"
  by (simp add: fs_after_def mkdir_parents_def mkdir_from_keeps)

lemma final_fs_keeps: "fs p = Some n \<Longrightarrow> final_fs E pd fs ds p = Some n"
  by (induction ds arbitrary: fs) (simp_all add: fs_after_keeps)

text \<open>One pass of the loop, by the outcome of its target.\<close>

lemma create_one_outcome:
  "create_one E pd sid st d =
     (let t = target_of pd d in
      case outcome_of E (cs_fs st) t of
        Unexaminable e \<Rightarrow>
          st\<lparr>cs_errors := cs_errors st
                 @ [''Error creating directory '' @ path_str d @ '': '' @ e],
             cs_failed := cs_failed st
                 @ [(d, ''Error creating directory '' @ path_str d @ '': '' @ e)]\<rparr>
      | AlreadyDirectory \<Rightarrow>
          st\<lparr>cs_warnings := cs_warnings st @ [''Directory already exists: '' @ path_str t]\<rparr>
      | NotADirectory \<Rightarrow>
          st\<lparr>cs_errors := cs_errors st @ [''Path exists but is not a directory: '' @ path_str t],
             cs_failed := cs_failed st
                 @ [(t, ''Path exists but is not a directory: '' @ path_str t)]\<rparr>
      | Created \<Rightarrow>
          st\<lparr>cs_created := cs_created st @ [t],
             cs_fs := fs_after E (cs_fs st) t,
             cs_operations := cs_operations st @ [create_operation t]\<rparr>
      | NotCreated \<Rightarrow>
          st\<lparr>cs_errors := cs_errors st @ [''Failed to create directory: '' @ path_str t],
             cs_failed := cs_failed st @ [(t, ''Failed to create directory: '' @ path_str t)],
             cs_fs := fs_after E (cs_fs st) t\<rparr>)"
proof (cases "E (target_of pd d)")
  case (Some e)
  then show ?thesis by (simp add: create_one_def outcome_of_def Let_def)
next
  case noerr: None
  show ?thesis
  proof (cases "cs_fs st (target_of pd d)")
    case (Some n)
    then show ?thesis using noerr
      by (cases n) (simp_all add: create_one_def outcome_of_def Let_def path_exists_def is_dir_def)
  next
    case None
    obtain ok fs' where mk: "mkdir_parents E (cs_fs st) (target_of pd d) = (ok, fs')"
      by (cases "mkdir_parents E (cs_fs st) (target_of pd d)")
    show ?thesis
    proof (cases "ok \<and> fs' (target_of pd d) = Some Dir")
      case True
      then show ?thesis using noerr None mk
        by (simp add: create_one_def outcome_of_def Let_def path_exists_def is_dir_def
            ensure_directory_exists_def fs_after_def track_operation_def create_operation_def)
    next
      case False
      then show ?thesis using noerr None mk
        by (cases ok)
           (auto simp: create_one_def outcome_of_def Let_def path_exists_def is_dir_def
             ensure_directory_exists_def fs_after_def)
    qed
  qed
qed

lemma create_one_fields:
  "cs_created (create_one E pd sid st d)
     = cs_created st @ List.map_filter (created_of pd) [(d, outcome_of E (cs_fs st) (target_of pd d))]"
  "cs_warnings (create_one E pd sid st d)
     = cs_warnings st @ List.map_filter (warning_of pd) [(d, outcome_of E (cs_fs st) (target_of pd d))]"
  "cs_failed (create_one E pd sid st d)
     = cs_failed st @ List.map_filter (failure_of pd) [(d, outcome_of E (cs_fs st) (target_of pd d))]"
  "cs_errors (create_one E pd sid st d)
     = cs_errors st
       @ map snd (List.map_filter (failure_of pd) [(d, outcome_of E (cs_fs st) (target_of pd d))])"
  "cs_operations (create_one E pd sid st d)
     = cs_operations st @ map create_operation
         (List.map_filter (created_of pd) [(d, outcome_of E (cs_fs st) (target_of pd d))])"
  "cs_fs (create_one E pd sid st d) = fs_after E (cs_fs st) (target_of pd d)"
  unfolding create_one_outcome
  by (cases "outcome_of E (cs_fs st) (target_of pd d)";
      simp add: Let_def List.map_filter_simps created_of_def warning_of_def failure_of_def
        fs_after_def)+

lemma map_filter_Cons_append:
  "List.map_filter f (x # xs) = List.map_filter f [x] @ List.map_filter f xs"
  by (cases "f x") (simp_all add: List.map_filter_simps)

text \<open>The whole loop, by the outcomes of its targets in turn.\<close>

lemma create_loop_fields:
  "cs_created (create_loop E pd sid st ds)
     = cs_created st @ List.map_filter (created_of pd) (outcomes E pd (cs_fs st) ds)"
  "cs_warnings (create_loop E pd sid st ds)
     = cs_warnings st @ List.map_filter (warning_of pd) (outcomes E pd (cs_fs st) ds)"
  "cs_failed (create_loop E pd sid st ds)
     = cs_failed st @ List.map_filter (failure_of pd) (outcomes E pd (cs_fs st) ds)"
  "cs_errors (create_loop E pd sid st ds)
     = cs_errors st @ map snd (List.map_filter (failure_of pd) (outcomes E pd (cs_fs st) ds))"
  "cs_operations (create_loop E pd sid st ds)
     = cs_operations st @ map create_operation
         (List.map_filter (created_of pd) (outcomes E pd (cs_fs st) ds))"
  "cs_fs (create_loop E pd sid st ds) = final_fs E pd (cs_fs st) ds"
proof (induction ds arbitrary: st)
  case Nil
  {
    case 1 show ?case by (simp add: List.map_filter_simps)
  next
    case 2 show ?case by (simp add: List.map_filter_simps)
  next
    case 3 show ?case by (simp add: List.map_filter_simps)
  next
    case 4 show ?case by (simp add: List.map_filter_simps)
  next
    case 5 show ?case by (simp add: List.map_filter_simps)
  next
    case 6 show ?case by simp
  }
next
  case (Cons d ds)
  let ?o = "(d, outcome_of E (cs_fs st) (target_of pd d))"
  let ?rest = "outcomes E pd (fs_after E (cs_fs st) (target_of pd d)) ds"
  {
    case 1 show ?case
      using Cons.IH(1)[of "create_one E pd sid st d"]
      by (simp add: create_one_fields List.map_filter_simps split: option.split)
  next
    case 2 show ?case
      using Cons.IH(2)[of "create_one E pd sid st d"]
      by (simp add: create_one_fields List.map_filter_simps split: option.split)
  next
    case 3 show ?case
      using Cons.IH(3)[of "create_one E pd sid st d"]
      by (simp add: create_one_fields List.map_filter_simps split: option.split)
  next
    case 4 show ?case
      using Cons.IH(4)[of "create_one E pd sid st d"]
      by (simp add: create_one_fields List.map_filter_simps split: option.split)
  next
    case 5 show ?case
      using Cons.IH(5)[of "create_one E pd sid st d"]
      by (simp add: create_one_fields List.map_filter_simps split: option.split)
  next
    case 6 show ?case
      using Cons.IH(6)[of "create_one E pd sid st d"]
      by (simp add: create_one_fields)
  }
qed

lemma outcomes_fst: "map fst (outcomes E pd fs ds) = ds"
  by (induction ds arbitrary: fs) simp_all

lemma outcome_of_AlreadyDirectory:
  "outcome_of E fs t = AlreadyDirectory \<longleftrightarrow> E t = None \<and> fs t = Some Dir"
  by (auto simp: outcome_of_def split: option.splits node.splits prod.splits)

lemma outcome_of_NotADirectory:
  "outcome_of E fs t = NotADirectory \<longleftrightarrow> E t = None \<and> (\<exists>b. fs t = Some (File b))"
  by (auto simp: outcome_of_def split: option.splits node.splits prod.splits)

lemma outcome_of_Created:
  "outcome_of E fs t = Created \<Longrightarrow> E t = None \<and> fs_after E fs t t = Some Dir"
  by (auto simp: outcome_of_def fs_after_def split: option.splits node.splits prod.splits if_splits)

lemma failure_of_None:
  "failure_of pd (d, out) = None \<longleftrightarrow> out = AlreadyDirectory \<or> out = Created"
  by (cases out) (simp_all add: failure_of_def Let_def)

lemma no_failure_all_directories:
  "List.map_filter (failure_of pd) (outcomes E pd fs ds) = [] \<Longrightarrow> d \<in> set ds \<Longrightarrow>
   final_fs E pd fs ds (target_of pd d) = Some Dir \<and> E (target_of pd d) = None"
proof (induction ds arbitrary: fs)
  case Nil
  then show ?case by simp
next
  case (Cons x ds)
  let ?t = "target_of pd x"
  from Cons.prems(1) have head: "failure_of pd (x, outcome_of E fs ?t) = None"
    and tail: "List.map_filter (failure_of pd) (outcomes E pd (fs_after E fs ?t) ds) = []"
    by (auto simp: List.map_filter_simps split: option.splits)
  show ?case
  proof (cases "d \<in> set ds")
    case True
    then show ?thesis using Cons.IH[OF tail] by simp
  next
    case False
    with Cons.prems(2) have dx: "d = x" by simp
    from head have "outcome_of E fs ?t = AlreadyDirectory \<or> outcome_of E fs ?t = Created"
      by (simp add: failure_of_None)
    then have "E ?t = None \<and> fs_after E fs ?t ?t = Some Dir"
      using outcome_of_AlreadyDirectory[of E fs ?t] outcome_of_Created[of E fs ?t]
        fs_after_keeps[of fs ?t Dir E ?t]
      by blast
    then show ?thesis using dx final_fs_keeps[of "fs_after E fs ?t" ?t Dir E pd ds] by simp
  qed
qed

lemma all_directories_outcomes:
  "\<forall>d\<in>set ds. fs (target_of pd d) = Some Dir \<and> E (target_of pd d) = None \<Longrightarrow>
   outcomes E pd fs ds = map (\<lambda>d. (d, AlreadyDirectory)) ds \<and> final_fs E pd fs ds = fs"
proof (induction ds)
  case Nil
  then show ?case by simp
next
  case (Cons d ds)
  then have "outcome_of E fs (target_of pd d) = AlreadyDirectory"
    by (simp add: outcome_of_AlreadyDirectory)
  then show ?case using Cons by (simp add: fs_after_def)
qed

lemma map_filter_all_directories:
  "List.map_filter (created_of pd) (map (\<lambda>d. (d, AlreadyDirectory)) ds) = []"
  "List.map_filter (failure_of pd) (map (\<lambda>d. (d, AlreadyDirectory)) ds) = []"
  "List.map_filter (warning_of pd) (map (\<lambda>d. (d, AlreadyDirectory)) ds)
     = map (\<lambda>d. ''Directory already exists: '' @ path_str (target_of pd d)) ds"
  by (induction ds)
     (simp_all add: List.map_filter_simps created_of_def failure_of_def warning_of_def)

lemma create_missing_directories_result:
  assumes "os_error project_dir = None" "path_exists fs project_dir"
  shows "create_missing_directories os_error fs ops project_dir missing_dirs session_id =
     Inr (\<lparr>created_directories =
             List.map_filter (created_of project_dir)
               (outcomes os_error project_dir fs missing_dirs),
           failed_directories =
             List.map_filter (failure_of project_dir)
               (outcomes os_error project_dir fs missing_dirs),
           success =
             (List.map_filter (failure_of project_dir)
                (outcomes os_error project_dir fs missing_dirs) = []),
           errors =
             map snd (List.map_filter (failure_of project_dir)
               (outcomes os_error project_dir fs missing_dirs)),
           warnings =
             List.map_filter (warning_of project_dir)
               (outcomes os_error project_dir fs missing_dirs)\<rparr>,
          final_fs os_error project_dir fs missing_dirs,
          ops @ map create_operation
            (List.map_filter (created_of project_dir)
               (outcomes os_error project_dir fs missing_dirs)))"
  using assms by (simp add: create_missing_directories_def Let_def create_loop_fields)

lemma create_missing_directories_raises:
  "(\<exists>e. create_missing_directories os_error fs ops project_dir missing_dirs session_id = Inl e)
     \<longleftrightarrow> os_error project_dir \<noteq> None \<or> \<not> path_exists fs project_dir"
  by (auto simp: create_missing_directories_def Let_def split: option.splits)

text \<open>
  Claim C3. \<open>create_missing_directories\<close> is idempotent: when a first call returns with
  \<open>success\<close>, a second call with the same arguments on the file system and the tracked
  operations the first one left creates no directory, records one
  \<open>Directory already exists\<close> warning per directory asked for, no failure and no error,
  returns \<open>success = True\<close>, and leaves the file system and the tracked operations as
  they were.
\<close>

theorem create_missing_directories_idempotent:
  assumes first: "create_missing_directories os_error fs ops project_dir missing_dirs session_id
                    = Inr (r1, fs1, ops1)"
    and ok: "success r1"
  shows "create_missing_directories os_error fs1 ops1 project_dir missing_dirs session_id
           = Inr (\<lparr>created_directories = [], failed_directories = [], success = True,
                   errors = [],
                   warnings = map (\<lambda>d. ''Directory already exists: ''
                                          @ path_str (target_of project_dir d)) missing_dirs\<rparr>,
                  fs1, ops1)"
proof -
  from first have noraise:
    "\<not> (os_error project_dir \<noteq> None \<or> \<not> path_exists fs project_dir)"
    using create_missing_directories_raises[of os_error fs ops project_dir missing_dirs session_id]
    by auto
  then have root: "os_error project_dir = None" "path_exists fs project_dir" by auto
  note res = create_missing_directories_result
    [where os_error=os_error and project_dir=project_dir and fs=fs and ops=ops
       and missing_dirs=missing_dirs and session_id=session_id, OF root]
  from first res have fs1: "fs1 = final_fs os_error project_dir fs missing_dirs"
    and failed: "failed_directories r1 =
      List.map_filter (failure_of project_dir) (outcomes os_error project_dir fs missing_dirs)"
    and succ: "success r1 =
      (List.map_filter (failure_of project_dir)
         (outcomes os_error project_dir fs missing_dirs) = [])"
    by auto
  from ok succ have nofail:
    "List.map_filter (failure_of project_dir) (outcomes os_error project_dir fs missing_dirs) = []"
    by simp
  have dirs: "\<forall>d\<in>set missing_dirs.
      fs1 (target_of project_dir d) = Some Dir \<and> os_error (target_of project_dir d) = None"
    using no_failure_all_directories[OF nofail] fs1 by blast
  from root(2) obtain n where "fs project_dir = Some n" by (auto simp: path_exists_def)
  then have "fs1 project_dir = Some n" unfolding fs1 by (rule final_fs_keeps)
  then have root1: "path_exists fs1 project_dir" by (simp add: path_exists_def)
  from all_directories_outcomes[OF dirs]
  have again: "outcomes os_error project_dir fs1 missing_dirs
                 = map (\<lambda>d. (d, AlreadyDirectory)) missing_dirs"
    "final_fs os_error project_dir fs1 missing_dirs = fs1" by simp_all
  show ?thesis
    unfolding create_missing_directories_result
      [where os_error=os_error and project_dir=project_dir and fs=fs1, OF root(1) root1] again
    by (simp add: map_filter_all_directories)
qed

lemmas creator_eval = create_missing_directories_def create_one_def path_exists_def is_dir_def
  target_of_def is_absolute_def ensure_directory_exists_def mkdir_parents_def
  track_operation_def path_str_def Let_def

lemma first_run:
  "create_missing_directories no_os_error test_project [] [''project''] test_missing ''test-session'' =
     Inr (\<lparr>created_directories = [[''project'', ''specs''], [''project'', ''specs'', ''features''],
                                   [''project'', ''docs'']],
           failed_directories = [], success = True, errors = [], warnings = []\<rparr>,
          test_project([''project'', ''specs''] \<mapsto> Dir, [''project'', ''specs'', ''features''] \<mapsto> Dir,
                       [''project'', ''docs''] \<mapsto> Dir),
          [\<lparr>operation_type = ''CREATE'', source_path = None, target_path = [''project'', ''specs'']\<rparr>,
           \<lparr>operation_type = ''CREATE'', source_path = None,
             target_path = [''project'', ''specs'', ''features'']\<rparr>,
           \<lparr>operation_type = ''CREATE'', source_path = None, target_path = [''project'', ''docs'']\<rparr>])"
  by (simp add: creator_eval test_project_def test_missing_def no_os_error_def)

text \<open>
  The first two calls of \<open>test_directory_creator\<close>, on the three directories at once.
\<close>

theorem create_missing_directories_idempotent_witness:
  "\<exists>r1 fs1 ops1.
     create_missing_directories no_os_error test_project [] [''project''] test_missing ''test-session''
       = Inr (r1, fs1, ops1) \<and> success r1 \<and>
     create_missing_directories no_os_error fs1 ops1 [''project''] test_missing ''test-session''
       = Inr (\<lparr>created_directories = [], failed_directories = [], success = True, errors = [],
               warnings = [''Directory already exists: project/specs'',
                           ''Directory already exists: project/specs/features'',
                           ''Directory already exists: project/docs'']\<rparr>, fs1, ops1)"
proof -
  note run = first_run
  have "success \<lparr>created_directories = [[''project'', ''specs''], [''project'', ''specs'', ''features''],
                                   [''project'', ''docs'']],
           failed_directories = [], success = True, errors = [], warnings = []\<rparr>" by simp
  from create_missing_directories_idempotent[OF run this] run
  show ?thesis
    by (simp add: test_missing_def target_of_def is_absolute_def path_str_def)
qed

lemma file_outcome:
  "d \<in> set ds \<Longrightarrow> fs (target_of pd d) = Some (File b) \<Longrightarrow> E (target_of pd d) = None \<Longrightarrow>
   (d, NotADirectory) \<in> set (outcomes E pd fs ds)"
proof (induction ds arbitrary: fs)
  case Nil
  then show ?case by simp
next
  case (Cons x ds)
  show ?case
  proof (cases "d = x")
    case True
    then have "outcome_of E fs (target_of pd x) = NotADirectory"
      using Cons.prems by (simp add: outcome_of_NotADirectory)
    then show ?thesis using True by simp
  next
    case False
    with Cons.prems have "d \<in> set ds" by simp
    moreover have "fs_after E fs (target_of pd x) (target_of pd d) = Some (File b)"
      using Cons.prems(2) by (rule fs_after_keeps)
    ultimately show ?thesis using Cons.IH Cons.prems(3) by simp
  qed
qed

lemma map_filter_member: "x \<in> set xs \<Longrightarrow> f x = Some y \<Longrightarrow> y \<in> set (List.map_filter f xs)"
  by (force simp: List.map_filter_def)

text \<open>
  Claim C4, as stated, fails: the call also raises for a project directory that exists,
  when the operating system does not let \<open>project_dir.exists()\<close> examine it; the
  \<open>OSError\<close> of that call, which stands outside the \<open>try\<close>, goes to the caller.
\<close>

theorem create_missing_directories_raise_counterexample:
  "path_exists test_project [''project''] \<and>
   create_missing_directories denied test_project [] [''project''] [[''docs'']] ''test-session''
     = Inl (OSError ''[Errno 13] Permission denied'')"
  by (simp add: create_missing_directories_def path_exists_def test_project_def denied_def)

text \<open>
  Claim C4, amended. \<open>create_missing_directories\<close> has partial-failure semantics. The
  call raises exactly when the project directory does not exist or cannot be examined.
  Otherwise it returns a result in which every directory of the list has the outcome of
  its own target, on the file system as the directories before it left it, whatever
  failed before: a target that is a directory gives a warning, a target that exists as
  something else the failure \<open>Path exists but is not a directory: \<close> followed by the
  path, a target that cannot be examined the failure \<open>Error creating directory\<close> under
  the directory as given, and any other target is created with its parents, or is the
  failure \<open>Failed to create directory\<close>. The errors are the messages of the failures,
  \<open>success\<close> holds exactly when there is no failure, and a target that is a plain file
  when the call starts is among the failures.
\<close>

theorem create_missing_directories_partial_failure:
  "((\<exists>e. create_missing_directories os_error fs ops project_dir missing_dirs session_id = Inl e)
      \<longleftrightarrow> os_error project_dir \<noteq> None \<or> \<not> path_exists fs project_dir) \<and>
   (os_error project_dir = None \<and> path_exists fs project_dir \<longrightarrow>
     (\<exists>r fs' ops'.
        create_missing_directories os_error fs ops project_dir missing_dirs session_id
          = Inr (r, fs', ops') \<and>
        map fst (outcomes os_error project_dir fs missing_dirs) = missing_dirs \<and>
        created_directories r =
          List.map_filter (created_of project_dir) (outcomes os_error project_dir fs missing_dirs) \<and>
        warnings r =
          List.map_filter (warning_of project_dir) (outcomes os_error project_dir fs missing_dirs) \<and>
        failed_directories r =
          List.map_filter (failure_of project_dir) (outcomes os_error project_dir fs missing_dirs) \<and>
        errors r = map snd (failed_directories r) \<and>
        (success r \<longleftrightarrow> failed_directories r = []) \<and>
        fs' = final_fs os_error project_dir fs missing_dirs \<and>
        ops' = ops @ map create_operation (created_directories r) \<and>
        (\<forall>d\<in>set missing_dirs. \<forall>b.
           os_error (target_of project_dir d) = None \<and>
           fs (target_of project_dir d) = Some (File b) \<longrightarrow>
           (target_of project_dir d,
            ''Path exists but is not a directory: '' @ path_str (target_of project_dir d))
             \<in> set (failed_directories r))))"
proof (intro conjI impI)
  show "(\<exists>e. create_missing_directories os_error fs ops project_dir missing_dirs session_id = Inl e)
      \<longleftrightarrow> os_error project_dir \<noteq> None \<or> \<not> path_exists fs project_dir"
    by (rule create_missing_directories_raises)
next
  assume root: "os_error project_dir = None \<and> path_exists fs project_dir"
  let ?outs = "outcomes os_error project_dir fs missing_dirs"
  let ?r = "\<lparr>created_directories = List.map_filter (created_of project_dir) ?outs,
             failed_directories = List.map_filter (failure_of project_dir) ?outs,
             success = (List.map_filter (failure_of project_dir) ?outs = []),
             errors = map snd (List.map_filter (failure_of project_dir) ?outs),
             warnings = List.map_filter (warning_of project_dir) ?outs\<rparr>"
  have res: "create_missing_directories os_error fs ops project_dir missing_dirs session_id
      = Inr (?r, final_fs os_error project_dir fs missing_dirs,
             ops @ map create_operation (created_directories ?r))"
    using create_missing_directories_result
      [where os_error=os_error and project_dir=project_dir and fs=fs and ops=ops
         and missing_dirs=missing_dirs and session_id=session_id] root
    by simp
  have files: "\<forall>d\<in>set missing_dirs. \<forall>b.
           os_error (target_of project_dir d) = None \<and>
           fs (target_of project_dir d) = Some (File b) \<longrightarrow>
           (target_of project_dir d,
            ''Path exists but is not a directory: '' @ path_str (target_of project_dir d))
             \<in> set (failed_directories ?r)"
  proof (intro ballI allI impI)
    fix d b
    assume d: "d \<in> set missing_dirs"
      and f: "os_error (target_of project_dir d) = None \<and>
              fs (target_of project_dir d) = Some (File b)"
    then have "(d, NotADirectory) \<in> set ?outs" using file_outcome by blast
    moreover have "failure_of project_dir (d, NotADirectory) =
      Some (target_of project_dir d,
            ''Path exists but is not a directory: '' @ path_str (target_of project_dir d))"
      by (simp add: failure_of_def Let_def)
    ultimately show "(target_of project_dir d,
            ''Path exists but is not a directory: '' @ path_str (target_of project_dir d))
             \<in> set (failed_directories ?r)"
      using map_filter_member by fastforce
  qed
  show "\<exists>r fs' ops'.
        create_missing_directories os_error fs ops project_dir missing_dirs session_id
          = Inr (r, fs', ops') \<and>
        map fst (outcomes os_error project_dir fs missing_dirs) = missing_dirs \<and>
        created_directories r =
          List.map_filter (created_of project_dir) (outcomes os_error project_dir fs missing_dirs) \<and>
        warnings r =
          List.map_filter (warning_of project_dir) (outcomes os_error project_dir fs missing_dirs) \<and>
        failed_directories r =
          List.map_filter (failure_of project_dir) (outcomes os_error project_dir fs missing_dirs) \<and>
        errors r = map snd (failed_directories r) \<and>
        (success r \<longleftrightarrow> failed_directories r = []) \<and>
        fs' = final_fs os_error project_dir fs missing_dirs \<and>
        ops' = ops @ map create_operation (created_directories r) \<and>
        (\<forall>d\<in>set missing_dirs. \<forall>b.
           os_error (target_of project_dir d) = None \<and>
           fs (target_of project_dir d) = Some (File b) \<longrightarrow>
           (target_of project_dir d,
            ''Path exists but is not a directory: '' @ path_str (target_of project_dir d))
             \<in> set (failed_directories r))"
    apply (rule exI[of _ ?r])
    apply (rule exI[of _ "final_fs os_error project_dir fs missing_dirs"])
    apply (rule exI[of _ "ops @ map create_operation (created_directories ?r)"])
    using res files by (simp add: outcomes_fst)
qed

lemma conflict_run:
  "create_missing_directories long_name conflict_project [] [''project'']
        [[''docs''], [''conflict''], [''too_long''], [''specs'']] ''test-session''
      = Inr (\<lparr>created_directories = [[''project'', ''docs''], [''project'', ''specs'']],
              failed_directories =
                [([''project'', ''conflict''],
                  ''Path exists but is not a directory: project/conflict''),
                 ([''too_long''],
                  ''Error creating directory too_long: [Errno 36] File name too long'')],
              success = False,
              errors = [''Path exists but is not a directory: project/conflict'',
                        ''Error creating directory too_long: [Errno 36] File name too long''],
              warnings = []\<rparr>,
             conflict_project([''project'', ''docs''] \<mapsto> Dir, [''project'', ''specs''] \<mapsto> Dir),
             [\<lparr>operation_type = ''CREATE'', source_path = None,
                target_path = [''project'', ''docs'']\<rparr>,
              \<lparr>operation_type = ''CREATE'', source_path = None,
                target_path = [''project'', ''specs'']\<rparr>])"
  by (simp add: creator_eval conflict_project_def long_name_def)

text \<open>
  The fourth call of \<open>test_directory_creator\<close>, with a directory asked for before the
  conflicting file, and a name that is too long and a directory after it: the file and
  the long name are failures and both directories are made.
\<close>

theorem create_missing_directories_partial_failure_witness:
  "long_name [''project''] = None \<and> path_exists conflict_project [''project''] \<and>
   [''conflict''] \<in> set [[''docs''], [''conflict''], [''too_long''], [''specs'']] \<and>
   long_name (target_of [''project''] [''conflict'']) = None \<and>
   conflict_project (target_of [''project''] [''conflict'']) = Some (File ''This is a file'') \<and>
   (\<exists>r fs' ops'.
      create_missing_directories long_name conflict_project [] [''project'']
        [[''docs''], [''conflict''], [''too_long''], [''specs'']] ''test-session'' = Inr (r, fs', ops') \<and>
      \<not> success r \<and>
      created_directories r = [[''project'', ''docs''], [''project'', ''specs'']] \<and>
      ([''project'', ''conflict''], ''Path exists but is not a directory: project/conflict'')
        \<in> set (failed_directories r) \<and>
      List.map_filter (failure_of [''project''])
        (outcomes long_name [''project''] conflict_project
           [[''docs''], [''conflict''], [''too_long''], [''specs'']])
        = [([''project'', ''conflict''], ''Path exists but is not a directory: project/conflict''),
           ([''too_long''], ''Error creating directory too_long: [Errno 36] File name too long'')] \<and>
      fs' [''project'', ''specs''] = Some Dir)"
proof -
  have root: "long_name [''project''] = None \<and> path_exists conflict_project [''project'']"
    by (simp add: path_exists_def conflict_project_def long_name_def)
  have conflict: "long_name (target_of [''project''] [''conflict'']) = None \<and>
      conflict_project (target_of [''project''] [''conflict'']) = Some (File ''This is a file'')"
    by (simp add: conflict_project_def target_of_def is_absolute_def long_name_def)
  from create_missing_directories_partial_failure
         [of long_name conflict_project "[]" "[''project'']"
             "[[''docs''], [''conflict''], [''too_long''], [''specs'']]" "''test-session''"]
       root
  obtain r fs' ops' where
    res: "create_missing_directories long_name conflict_project [] [''project'']
        [[''docs''], [''conflict''], [''too_long''], [''specs'']] ''test-session'' = Inr (r, fs', ops')"
    and failed: "failed_directories r = List.map_filter (failure_of [''project''])
        (outcomes long_name [''project''] conflict_project
           [[''docs''], [''conflict''], [''too_long''], [''specs'']])"
    by blast
  from res conflict_run have
    r: "r = \<lparr>created_directories = [[''project'', ''docs''], [''project'', ''specs'']],
              failed_directories =
                [([''project'', ''conflict''],
                  ''Path exists but is not a directory: project/conflict''),
                 ([''too_long''],
                  ''Error creating directory too_long: [Errno 36] File name too long'')],
              success = False,
              errors = [''Path exists but is not a directory: project/conflict'',
                        ''Error creating directory too_long: [Errno 36] File name too long''],
              warnings = []\<rparr>"
    and fs': "fs' = conflict_project([''project'', ''docs''] \<mapsto> Dir, [''project'', ''specs''] \<mapsto> Dir)"
    by simp_all
  have "\<exists>r fs' ops'.
      create_missing_directories long_name conflict_project [] [''project'']
        [[''docs''], [''conflict''], [''too_long''], [''specs'']] ''test-session'' = Inr (r, fs', ops') \<and>
      \<not> success r \<and>
      created_directories r = [[''project'', ''docs''], [''project'', ''specs'']] \<and>
      ([''project'', ''conflict''], ''Path exists but is not a directory: project/conflict'')
        \<in> set (failed_directories r) \<and>
      List.map_filter (failure_of [''project''])
        (outcomes long_name [''project''] conflict_project
           [[''docs''], [''conflict''], [''too_long''], [''specs'']])
        = [([''project'', ''conflict''], ''Path exists but is not a directory: project/conflict''),
           ([''too_long''], ''Error creating directory too_long: [Errno 36] File name too long'')] \<and>
      fs' [''project'', ''specs''] = Some Dir"
    apply (rule exI[of _ r])
    apply (rule exI[of _ fs'])
    apply (rule exI[of _ ops'])
    using res failed[symmetric] by (simp add: r fs')
  then show ?thesis using root conflict by simp
qed

section \<open>Extraction of requirements\<close>

lemma strip_no_leading: "strip s = [] \<or> \<not> is_space (hd (strip s))"
proof (cases "strip s = []")
  case True
  then show ?thesis by simp
next
  case False
  let ?u = "dropWhile is_space s"
  have u: "?u = strip s @ rev (takeWhile is_space (rev ?u))"
    unfolding strip_def by (metis rev_append rev_rev_ident takeWhile_dropWhile_id)
  then have "?u \<noteq> []" using False by (metis append_is_Nil_conv)
  then have "\<not> is_space (hd ?u)" by (rule hd_dropWhile)
  moreover have "hd ?u = hd (strip s)" using u False by (metis hd_append2)
  ultimately show ?thesis by simp
qed

lemma strip_no_trailing: "strip s = [] \<or> \<not> is_space (last (strip s))"
proof (cases "strip s = []")
  case True
  then show ?thesis by simp
next
  case False
  let ?v = "dropWhile is_space (rev (dropWhile is_space s))"
  have v: "strip s = rev ?v" by (simp add: strip_def)
  with False have "?v \<noteq> []" by simp
  then have "\<not> is_space (hd ?v)" by (rule hd_dropWhile)
  then show ?thesis using v \<open>?v \<noteq> []\<close> by (simp add: last_rev)
qed

lemma strip_strip: "strip (strip s) = strip s"
proof -
  have a: "dropWhile is_space (strip s) = strip s"
    using strip_no_leading[of s] by (simp add: dropWhile_eq_self_iff)
  have "rev (strip s) = [] \<or> \<not> is_space (hd (rev (strip s)))"
    using strip_no_trailing[of s] by (auto simp: hd_rev)
  then have b: "dropWhile is_space (rev (strip s)) = rev (strip s)"
    by (simp add: dropWhile_eq_self_iff)
  show ?thesis
    unfolding strip_def[of "strip s"] a b by simp
qed

lemma extract_ears_requirement_from_eq:
  "extract_ears_requirement_from ps line f n =
     (if list_ex (\<lambda>p. search p line) ps
      then Some \<lparr>req_text = strip line, source_file = f, line_number = n,
              requirement_type = EARS, confidence = 9 / 10, req_context = get_context line 50\<rparr>
      else None)"
  by (induction ps) auto

lemma extract_general_requirement_from_eq:
  "extract_general_requirement_from ps line f n =
     (if list_ex (\<lambda>p. search p line) ps
      then Some \<lparr>req_text = strip line, source_file = f, line_number = n,
              requirement_type = GENERAL, confidence = 7 / 10, req_context = get_context line 50\<rparr>
      else None)"
  by (induction ps) auto

lemma extract_user_story_from_eq:
  "extract_user_story_from ps line f n =
     (if list_ex (\<lambda>p. search p line) ps
      then Some \<lparr>req_text = strip line, source_file = f, line_number = n,
              requirement_type = USER_STORY, confidence = 8 / 10, req_context = get_context line 50\<rparr>
      else None)"
  by (induction ps) auto

lemma extract_loop_step:
  "extract_loop f n (raw # lines) acc =
     extract_loop f (Suc n) lines
       (acc @ (case record_of_line f (n, raw) of None \<Rightarrow> [] | Some r \<Rightarrow> [r]))"
  by (simp add: Let_def record_of_line_def first_matching_family_def confidence_of_def
      extract_ears_requirement_def extract_general_requirement_def extract_user_story_def
      extract_ears_requirement_from_eq extract_general_requirement_from_eq
      extract_user_story_from_eq strip_strip)

lemma extract_loop_eq:
  "extract_loop f n lines acc = acc @ List.map_filter (record_of_line f) (List.enumerate n lines)"
proof (induction lines arbitrary: n acc)
  case Nil
  then show ?case by (simp add: List.map_filter_simps)
next
  case (Cons raw lines)
  show ?case
    unfolding extract_loop_step Cons.IH
    by (cases "record_of_line f (n, raw)") (simp_all add: List.map_filter_simps)
qed

text \<open>
  Claim C5. \<open>extract_requirements\<close> scans the content line by line and emits at most one
  record for a line: its result is the list, in the order of the lines, of the records
  \<open>record_of_line\<close> gives, in which a blank line gives none, and any other line gets the
  type of the first of the families EARS, general, user story that has a pattern matching
  it, and no record when no family matches.
\<close>

theorem extract_requirements_first_family_wins:
  "extract_requirements content file_path = requirements_by_line content file_path \<and>
   length (extract_requirements content file_path) \<le> length (split_lines content)"
proof -
  have eq: "extract_requirements content file_path = requirements_by_line content file_path"
    by (simp add: extract_requirements_def requirements_by_line_def extract_loop_eq)
  have "length (requirements_by_line content file_path)
          \<le> length (List.enumerate 1 (split_lines content))"
    unfolding requirements_by_line_def List.map_filter_def
    by (simp add: le_trans[OF length_filter_le])
  then show ?thesis using eq by simp
qed

text \<open>
  Tables of \<open>lower_char\<close> and \<open>is_space\<close> on the letters and the punctuation of the
  examples, for evaluating the patterns on them.
\<close>

lemma lower_char_table:
  "lower_char (CHR ''a'') = CHR ''a''"
  "lower_char (CHR ''b'') = CHR ''b''"
  "lower_char (CHR ''c'') = CHR ''c''"
  "lower_char (CHR ''d'') = CHR ''d''"
  "lower_char (CHR ''e'') = CHR ''e''"
  "lower_char (CHR ''f'') = CHR ''f''"
  "lower_char (CHR ''g'') = CHR ''g''"
  "lower_char (CHR ''h'') = CHR ''h''"
  "lower_char (CHR ''i'') = CHR ''i''"
  "lower_char (CHR ''j'') = CHR ''j''"
  "lower_char (CHR ''k'') = CHR ''k''"
  "lower_char (CHR ''l'') = CHR ''l''"
  "lower_char (CHR ''m'') = CHR ''m''"
  "lower_char (CHR ''n'') = CHR ''n''"
  "lower_char (CHR ''o'') = CHR ''o''"
  "lower_char (CHR ''p'') = CHR ''p''"
  "lower_char (CHR ''q'') = CHR ''q''"
  "lower_char (CHR ''r'') = CHR ''r''"
  "lower_char (CHR ''s'') = CHR ''s''"
  "lower_char (CHR ''t'') = CHR ''t''"
  "lower_char (CHR ''u'') = CHR ''u''"
  "lower_char (CHR ''v'') = CHR ''v''"
  "lower_char (CHR ''w'') = CHR ''w''"
  "lower_char (CHR ''x'') = CHR ''x''"
  "lower_char (CHR ''y'') = CHR ''y''"
  "lower_char (CHR ''z'') = CHR ''z''"
  "lower_char (CHR ''A'') = CHR ''a''"
  "lower_char (CHR ''B'') = CHR ''b''"
  "lower_char (CHR ''C'') = CHR ''c''"
  "lower_char (CHR ''D'') = CHR ''d''"
  "lower_char (CHR ''E'') = CHR ''e''"
  "lower_char (CHR ''F'') = CHR ''f''"
  "lower_char (CHR ''G'') = CHR ''g''"
  "lower_char (CHR ''H'') = CHR ''h''"
  "lower_char (CHR ''I'') = CHR ''i''"
  "lower_char (CHR ''J'') = CHR ''j''"
  "lower_char (CHR ''K'') = CHR ''k''"
  "lower_char (CHR ''L'') = CHR ''l''"
  "lower_char (CHR ''M'') = CHR ''m''"
  "lower_char (CHR ''N'') = CHR ''n''"
  "lower_char (CHR ''O'') = CHR ''o''"
  "lower_char (CHR ''P'') = CHR ''p''"
  "lower_char (CHR ''Q'') = CHR ''q''"
  "lower_char (CHR ''R'') = CHR ''r''"
  "lower_char (CHR ''S'') = CHR ''s''"
  "lower_char (CHR ''T'') = CHR ''t''"
  "lower_char (CHR ''U'') = CHR ''u''"
  "lower_char (CHR ''V'') = CHR ''v''"
  "lower_char (CHR ''W'') = CHR ''w''"
  "lower_char (CHR ''X'') = CHR ''x''"
  "lower_char (CHR ''Y'') = CHR ''y''"
  "lower_char (CHR ''Z'') = CHR ''z''"
  "lower_char (CHR '' '') = CHR '' ''"
  "lower_char (CHR '','') = CHR '',''"
  "lower_char (CHR ''.'') = CHR ''.''"
  "lower_char (CHR 0x0A) = CHR 0x0A"
  by code_simp+

lemma is_space_table:
  "is_space (CHR ''a'') = False"
  "is_space (CHR ''b'') = False"
  "is_space (CHR ''c'') = False"
  "is_space (CHR ''d'') = False"
  "is_space (CHR ''e'') = False"
  "is_space (CHR ''f'') = False"
  "is_space (CHR ''g'') = False"
  "is_space (CHR ''h'') = False"
  "is_space (CHR ''i'') = False"
  "is_space (CHR ''j'') = False"
  "is_space (CHR ''k'') = False"
  "is_space (CHR ''l'') = False"
  "is_space (CHR ''m'') = False"
  "is_space (CHR ''n'') = False"
  "is_space (CHR ''o'') = False"
  "is_space (CHR ''p'') = False"
  "is_space (CHR ''q'') = False"
  "is_space (CHR ''r'') = False"
  "is_space (CHR ''s'') = False"
  "is_space (CHR ''t'') = False"
  "is_space (CHR ''u'') = False"
  "is_space (CHR ''v'') = False"
  "is_space (CHR ''w'') = False"
  "is_space (CHR ''x'') = False"
  "is_space (CHR ''y'') = False"
  "is_space (CHR ''z'') = False"
  "is_space (CHR ''A'') = False"
  "is_space (CHR ''B'') = False"
  "is_space (CHR ''C'') = False"
  "is_space (CHR ''D'') = False"
  "is_space (CHR ''E'') = False"
  "is_space (CHR ''F'') = False"
  "is_space (CHR ''G'') = False"
  "is_space (CHR ''H'') = False"
  "is_space (CHR ''I'') = False"
  "is_space (CHR ''J'') = False"
  "is_space (CHR ''K'') = False"
  "is_space (CHR ''L'') = False"
  "is_space (CHR ''M'') = False"
  "is_space (CHR ''N'') = False"
  "is_space (CHR ''O'') = False"
  "is_space (CHR ''P'') = False"
  "is_space (CHR ''Q'') = False"
  "is_space (CHR ''R'') = False"
  "is_space (CHR ''S'') = False"
  "is_space (CHR ''T'') = False"
  "is_space (CHR ''U'') = False"
  "is_space (CHR ''V'') = False"
  "is_space (CHR ''W'') = False"
  "is_space (CHR ''X'') = False"
  "is_space (CHR ''Y'') = False"
  "is_space (CHR ''Z'') = False"
  "is_space (CHR '' '') = True"
  "is_space (CHR '','') = False"
  "is_space (CHR ''.'') = False"
  "is_space (CHR 0x0A) = True"
  by (simp_all add: is_space_def)

lemmas regex_eval = ears_patterns_def general_requirement_patterns_def user_story_patterns_def
  modal_def comma_def ichar_def spaces_def some_dotall_def some_chars_def stop_def
  lower_char_table is_space_table

lemma sample_lines:
  "split_lines sample_content =
     [''WHEN a THEN system SHALL b'', '''', ''  it must c'', ''As a u, I want v, so that w'', ''note'']"
  by (simp add: sample_content_def split_lines_def)

lemma sample_families:
  "first_matching_family ''WHEN a THEN system SHALL b'' = Some EARS"
  "list_ex (\<lambda>p. search p ''WHEN a THEN system SHALL b'') general_requirement_patterns"
  "first_matching_family ''it must c'' = Some GENERAL"
  "first_matching_family ''As a u, I want v, so that w'' = Some USER_STORY"
  "first_matching_family ''note'' = None"
  by (simp_all add: first_matching_family_def regex_eval)

lemma sample_by_line:
  "requirements_by_line sample_content [''test.md''] =
     [\<lparr>req_text = ''WHEN a THEN system SHALL b'', source_file = [''test.md''], line_number = 1,
       requirement_type = EARS, confidence = 9 / 10, req_context = ''WHEN a THEN system SHALL b''\<rparr>,
      \<lparr>req_text = ''it must c'', source_file = [''test.md''], line_number = 3,
       requirement_type = GENERAL, confidence = 7 / 10, req_context = ''it must c''\<rparr>,
      \<lparr>req_text = ''As a u, I want v, so that w'', source_file = [''test.md''], line_number = 4,
       requirement_type = USER_STORY, confidence = 4 / 5,
       req_context = ''As a u, I want v, so that w''\<rparr>]"
  by (simp add: requirements_by_line_def sample_lines List.map_filter_simps record_of_line_def
      strip_def is_space_table sample_families confidence_of_def get_context_def Let_def)

text \<open>
  On the sample, the first line is an EARS requirement although the general family
  matches it too, the third a general one, the fourth a user story, and the blank line
  and the last line give no record.
\<close>

theorem extract_requirements_first_family_wins_witness:
  "extract_requirements sample_content [''test.md''] =
     [\<lparr>req_text = ''WHEN a THEN system SHALL b'', source_file = [''test.md''], line_number = 1,
       requirement_type = EARS, confidence = 9 / 10, req_context = ''WHEN a THEN system SHALL b''\<rparr>,
      \<lparr>req_text = ''it must c'', source_file = [''test.md''], line_number = 3,
       requirement_type = GENERAL, confidence = 7 / 10, req_context = ''it must c''\<rparr>,
      \<lparr>req_text = ''As a u, I want v, so that w'', source_file = [''test.md''], line_number = 4,
       requirement_type = USER_STORY, confidence = 4 / 5,
       req_context = ''As a u, I want v, so that w''\<rparr>] \<and>
   length (extract_requirements sample_content [''test.md'']) \<le> length (split_lines sample_content)"
  using extract_requirements_first_family_wins[of sample_content "[''test.md'']"]
    sample_by_line sample_lines
  by simp

section \<open>Deduplication of requirements\<close>

lemma finite_word_set: "finite (word_set t)"
  by (simp add: word_set_def)

lemma are_similar_iff:
  "are_similar a b t \<longleftrightarrow> word_set a \<noteq> {} \<and> word_set b \<noteq> {} \<and> jaccard a b \<ge> t"
  by (auto simp: are_similar_def jaccard_def word_set_def Let_def)

lemma jaccard_commute: "jaccard a b = jaccard b a"
  by (simp add: jaccard_def Int_commute Un_commute)

lemma are_similar_commute: "are_similar a b t = are_similar b a t"
  by (auto simp: are_similar_iff jaccard_commute)

lemma jaccard_empty: "word_set a = {} \<Longrightarrow> jaccard a b = 0"
  by (simp add: jaccard_def)

lemma jaccard_above: "jaccard a b > 0 \<Longrightarrow> word_set a \<noteq> {} \<and> word_set b \<noteq> {}"
  using jaccard_empty[of a b] jaccard_empty[of b a] jaccard_commute[of a b] by auto

lemma not_similar_below: "\<not> are_similar a b (8 / 10) \<Longrightarrow> jaccard a b < 4 / 5"
  using jaccard_empty[of a b] jaccard_empty[of b a] jaccard_commute[of a b]
  by (auto simp: are_similar_iff)

lemma above_similar: "jaccard a b > 4 / 5 \<Longrightarrow> are_similar a b (8 / 10)"
  using jaccard_above[of a b] by (auto simp: are_similar_iff)

lemma is_similar_to_any_iff:
  "is_similar_to_any x K \<longleftrightarrow> (\<exists>k\<in>set K. are_similar (req_text x) (req_text k) (8 / 10))"
  by (induction K) auto

lemma accepts_antimono: "set K \<subseteq> set K' \<Longrightarrow> accepts K' x \<Longrightarrow> accepts K x"
  by (auto simp: accepts_def is_similar_to_any_iff)

lemma dedup_loop_step:
  "S = norm_of ` set U \<Longrightarrow>
   dedup_loop U S (x # xs) =
     (if accepts U x then dedup_loop (U @ [x]) (norm_of ` set (U @ [x])) xs
      else dedup_loop U S xs)"
  by (auto simp: accepts_def norm_of_def Let_def)

lemma dedup_loop_snoc:
  "S = norm_of ` set U \<Longrightarrow>
   dedup_loop U S (xs @ [x]) =
     (if accepts (dedup_loop U S xs) x then dedup_loop U S xs @ [x] else dedup_loop U S xs)"
proof (induction xs arbitrary: U S)
  case Nil
  then show ?case by (simp add: dedup_loop_step del: dedup_loop.simps(2))
next
  case (Cons y ys)
  show ?case
  proof (cases "accepts U y")
    case True
    then show ?thesis
      using Cons.prems Cons.IH[of "norm_of ` set (U @ [y])" "U @ [y]"]
      by (simp add: dedup_loop_step del: dedup_loop.simps(2))
  next
    case False
    then show ?thesis
      using Cons.prems Cons.IH[of S U]
      by (simp add: dedup_loop_step del: dedup_loop.simps(2))
  qed
qed

lemma deduplicate_requirements_eq: "deduplicate_requirements xs = dedup xs"
  by (simp add: deduplicate_requirements_def dedup_def)

lemma dedup_Nil: "dedup [] = []"
  by (simp add: dedup_def)

lemma dedup_snoc:
  "dedup (xs @ [x]) = (if accepts (dedup xs) x then dedup xs @ [x] else dedup xs)"
  unfolding dedup_def by (rule dedup_loop_snoc) simp

lemma dedup_subseq: "subseq (dedup xs) xs"
proof (induction xs rule: rev_induct)
  case Nil
  then show ?case by (simp add: dedup_Nil)
next
  case (snoc x xs)
  then show ?case
    by (auto simp: dedup_snoc intro: subseq_rev_drop_many)
qed

lemma dedup_set: "set (dedup xs) \<subseteq> set xs"
  using dedup_subseq[of xs] by (auto simp: subseq_conv_nths dest: in_set_nthsD)

lemma dedup_prefix: "prefix (dedup xs) (dedup (xs @ ys))"
proof (induction ys rule: rev_induct)
  case Nil
  then show ?case by simp
next
  case (snoc y ys)
  have "dedup (xs @ ys @ [y]) = dedup ((xs @ ys) @ [y])" by simp
  also have "prefix (dedup (xs @ ys)) \<dots>"
    unfolding dedup_snoc by simp
  finally show ?case using snoc.IH by (metis prefix_order.trans append.assoc)
qed

lemma well_separated_snoc:
  "well_separated (K @ [x]) \<longleftrightarrow> well_separated K \<and> accepts K x"
  by (auto simp: well_separated_def less_Suc_eq nth_append)

lemma dedup_well_separated: "well_separated (dedup xs)"
proof (induction xs rule: rev_induct)
  case Nil
  then show ?case by (simp add: dedup_Nil well_separated_def)
next
  case (snoc x xs)
  then show ?case by (simp add: dedup_snoc well_separated_snoc)
qed

lemma well_separated_dedup: "well_separated K \<Longrightarrow> dedup K = K"
proof (induction K rule: rev_induct)
  case Nil
  then show ?case by (simp add: dedup_Nil)
next
  case (snoc x K)
  then show ?case by (simp add: dedup_snoc well_separated_snoc)
qed

lemma dedup_idem: "dedup (dedup xs) = dedup xs"
  by (rule well_separated_dedup) (rule dedup_well_separated)

lemma dedup_distinct: "distinct (map norm_of (dedup xs))"
proof (induction xs rule: rev_induct)
  case Nil
  then show ?case by (simp add: dedup_Nil)
next
  case (snoc x xs)
  then show ?case by (auto simp: dedup_snoc accepts_def)
qed

lemma dedup_norm_inj:
  "a \<in> set (dedup xs) \<Longrightarrow> b \<in> set (dedup xs) \<Longrightarrow> a \<noteq> b \<Longrightarrow> norm_of a \<noteq> norm_of b"
  using dedup_distinct[of xs] by (meson distinct_map inj_onD)

lemma dedup_mono_set: "set (dedup xs) \<subseteq> set (dedup (xs @ ys))"
  using dedup_prefix[of xs ys] by (auto simp: prefix_def)

lemma dedup_cover:
  "r \<in> set xs \<Longrightarrow>
   (\<exists>k\<in>set (dedup xs). norm_of k = norm_of r) \<or>
   (\<exists>k\<in>set (dedup xs). are_similar (req_text r) (req_text k) (8 / 10))"
proof (induction xs rule: rev_induct)
  case Nil
  then show ?case by simp
next
  case (snoc x xs)
  show ?case
  proof (cases "r \<in> set xs")
    case True
    then show ?thesis using snoc.IH dedup_mono_set[of xs "[x]"] by blast
  next
    case False
    with snoc.prems have rx: "r = x" by simp
    show ?thesis
    proof (cases "accepts (dedup xs) x")
      case True
      then show ?thesis using rx by (auto simp: dedup_snoc)
    next
      case False
      then show ?thesis using rx by (auto simp: dedup_snoc accepts_def is_similar_to_any_iff)
    qed
  qed
qed

lemma dedup_not_similar:
  "a \<in> set (dedup xs) \<Longrightarrow> b \<in> set (dedup xs) \<Longrightarrow> a \<noteq> b \<Longrightarrow>
   \<not> are_similar (req_text a) (req_text b) (8 / 10)"
proof (induction xs arbitrary: a b rule: rev_induct)
  case Nil
  then show ?case by (simp add: dedup_Nil)
next
  case (snoc x xs)
  show ?case
  proof (cases "accepts (dedup xs) x")
    case False
    then show ?thesis using snoc by (simp add: dedup_snoc)
  next
    case True
    then have new: "\<And>k. k \<in> set (dedup xs) \<Longrightarrow> \<not> are_similar (req_text x) (req_text k) (8 / 10)"
      by (simp add: accepts_def is_similar_to_any_iff)
    from True snoc.prems have mem: "a \<in> set (dedup xs) \<or> a = x" "b \<in> set (dedup xs) \<or> b = x"
      by (auto simp: dedup_snoc)
    show ?thesis
    proof (cases "a = x")
      case ax: True
      with mem snoc.prems(3) have "b \<in> set (dedup xs)" by auto
      then show ?thesis using new ax by simp
    next
      case ax: False
      with mem have a: "a \<in> set (dedup xs)" by simp
      show ?thesis
      proof (cases "b = x")
        case True
        then show ?thesis using new[OF a] are_similar_commute[of "req_text a" "req_text x"] by simp
      next
        case False
        with mem have "b \<in> set (dedup xs)" by simp
        then show ?thesis using snoc.IH[OF a _ snoc.prems(3)] by simp
      qed
    qed
  qed
qed

lemma dedup_new_accepted:
  "x \<in> set (dedup (as @ ys)) \<Longrightarrow> x \<in> set (dedup as) \<or> accepts (dedup as) x"
proof (induction ys rule: rev_induct)
  case Nil
  then show ?case by simp
next
  case (snoc y ys)
  have step: "dedup (as @ ys @ [y]) =
    (if accepts (dedup (as @ ys)) y then dedup (as @ ys) @ [y] else dedup (as @ ys))"
    using dedup_snoc[of "as @ ys" y] by simp
  show ?case
  proof (cases "x \<in> set (dedup (as @ ys))")
    case True
    then show ?thesis using snoc.IH by simp
  next
    case False
    with snoc.prems step have "x = y" "accepts (dedup (as @ ys)) y"
      by (auto split: if_splits)
    then show ?thesis using accepts_antimono[OF dedup_mono_set[of as ys]] by blast
  qed
qed

lemma dedup_first_occurrence:
  assumes "r \<notin> set as" "r \<in> set (dedup (as @ r # bs))"
  shows "dedup (as @ [r]) = dedup as @ [r]"
proof -
  have "r \<notin> set (dedup as)" using assms(1) dedup_set by blast
  with dedup_new_accepted[OF assms(2)] have "accepts (dedup as) r" by simp
  then show ?thesis by (simp add: dedup_snoc)
qed

lemma dedup_single: "dedup [a] = [a]"
  using dedup_snoc[of "[]" a] by (simp add: dedup_Nil accepts_def)

lemma dedup_same_norm:
  "\<forall>x\<in>set xs. norm_of x = norm_of a \<Longrightarrow> dedup (a # xs) = [a]"
proof (induction xs rule: rev_induct)
  case Nil
  then show ?case by (simp add: dedup_single)
next
  case (snoc x xs)
  then have kept: "dedup (a # xs) = [a]" and same: "norm_of x = norm_of a" by simp_all
  have "\<not> accepts [a] x" using same by (simp add: accepts_def)
  then show ?case using dedup_snoc[of "a # xs" x] kept by simp
qed

text \<open>Evaluation of the normalization and of the similarity on the examples.\<close>

lemma is_word_char_table:
  "is_word_char (CHR ''a'') = True"
  "is_word_char (CHR ''b'') = True"
  "is_word_char (CHR ''c'') = True"
  "is_word_char (CHR ''d'') = True"
  "is_word_char (CHR ''e'') = True"
  "is_word_char (CHR ''f'') = True"
  "is_word_char (CHR ''g'') = True"
  "is_word_char (CHR ''h'') = True"
  "is_word_char (CHR ''i'') = True"
  "is_word_char (CHR ''j'') = True"
  "is_word_char (CHR ''k'') = True"
  "is_word_char (CHR ''l'') = True"
  "is_word_char (CHR ''m'') = True"
  "is_word_char (CHR ''n'') = True"
  "is_word_char (CHR ''o'') = True"
  "is_word_char (CHR ''p'') = True"
  "is_word_char (CHR ''q'') = True"
  "is_word_char (CHR ''r'') = True"
  "is_word_char (CHR ''s'') = True"
  "is_word_char (CHR ''t'') = True"
  "is_word_char (CHR ''u'') = True"
  "is_word_char (CHR ''v'') = True"
  "is_word_char (CHR ''w'') = True"
  "is_word_char (CHR ''x'') = True"
  "is_word_char (CHR ''y'') = True"
  "is_word_char (CHR ''z'') = True"
  "is_word_char (CHR ''A'') = True"
  "is_word_char (CHR ''B'') = True"
  "is_word_char (CHR ''C'') = True"
  "is_word_char (CHR ''D'') = True"
  "is_word_char (CHR ''E'') = True"
  "is_word_char (CHR ''F'') = True"
  "is_word_char (CHR ''G'') = True"
  "is_word_char (CHR ''H'') = True"
  "is_word_char (CHR ''I'') = True"
  "is_word_char (CHR ''J'') = True"
  "is_word_char (CHR ''K'') = True"
  "is_word_char (CHR ''L'') = True"
  "is_word_char (CHR ''M'') = True"
  "is_word_char (CHR ''N'') = True"
  "is_word_char (CHR ''O'') = True"
  "is_word_char (CHR ''P'') = True"
  "is_word_char (CHR ''Q'') = True"
  "is_word_char (CHR ''R'') = True"
  "is_word_char (CHR ''S'') = True"
  "is_word_char (CHR ''T'') = True"
  "is_word_char (CHR ''U'') = True"
  "is_word_char (CHR ''V'') = True"
  "is_word_char (CHR ''W'') = True"
  "is_word_char (CHR ''X'') = True"
  "is_word_char (CHR ''Y'') = True"
  "is_word_char (CHR ''Z'') = True"
  "is_word_char (CHR '' '') = False"
  "is_word_char (CHR '','') = False"
  "is_word_char (CHR ''.'') = False"
  "is_word_char (CHR 0x0A) = False"
  by (simp_all add: is_word_char_def)

lemmas text_eval = normalize_text_def lower_def strip_def strip_punctuation_def split_words_def
  lower_char_table is_space_table is_word_char_table

lemma sample_norms:
  "normalize_text ''The system must validate input'' = ''the system must validate input''"
  "normalize_text ''The system must encrypt data'' = ''the system must encrypt data''"
  "normalize_text ''The system must log errors'' = ''the system must log errors''"
  "normalize_text ''The system must log all errors.'' = ''the system must log all errors''"
  "normalize_text ''the system must log all errors'' = ''the system must log all errors''"
  "normalize_text ''The system must log'' = ''the system must log''"
  "normalize_text ''the system must log errors.'' = ''the system must log errors''"
  by (simp_all add: text_eval)

lemma sample_words:
  "split_words ''the system must validate input'' = [''the'', ''system'', ''must'', ''validate'', ''input'']"
  "split_words ''the system must encrypt data'' = [''the'', ''system'', ''must'', ''encrypt'', ''data'']"
  "split_words ''the system must log errors'' = [''the'', ''system'', ''must'', ''log'', ''errors'']"
  "split_words ''the system must log all errors'' = [''the'', ''system'', ''must'', ''log'', ''all'', ''errors'']"
  "split_words ''the system must log'' = [''the'', ''system'', ''must'', ''log'']"
  by (simp_all add: text_eval)

lemma sample_similar:
  "are_similar ''The system must log all errors.'' ''The system must log errors'' (4 / 5)"
  "\<not> are_similar ''The system must encrypt data'' ''The system must validate input'' (4 / 5)"
  "are_similar ''the system must log all errors'' ''The system must log errors'' (4 / 5)"
  "are_similar ''The system must log errors'' ''The system must log'' (4 / 5)"
  "are_similar ''the system must log errors.'' ''The system must log'' (4 / 5)"
  by (simp_all add: are_similar_def sample_norms sample_words Let_def card_insert_if)

lemma accepts_eval:
  "accepts [] x"
  "accepts (K @ [k]) x \<longleftrightarrow>
     accepts K x \<and> norm_of x \<noteq> norm_of k \<and> \<not> are_similar (req_text x) (req_text k) (8 / 10)"
  by (auto simp: accepts_def is_similar_to_any_iff)

lemma dedup_test_requirements: "dedup [validate1, validate2, encrypt3] = [validate1, encrypt3]"
proof -
  have a: "dedup [validate1] = [validate1]" by (rule dedup_single)
  have "\<not> accepts [validate1] validate2"
    by (simp add: accepts_def norm_of_def validate1_def validate2_def)
  then have b: "dedup [validate1, validate2] = [validate1]"
    using dedup_snoc[of "[validate1]" validate2] a by simp
  have "accepts ([] @ [validate1]) encrypt3"
    unfolding accepts_eval
    by (simp add: norm_of_def validate1_def encrypt3_def sample_norms sample_similar accepts_eval(1))
  then show ?thesis
    using dedup_snoc[of "[validate1, validate2]" encrypt3] b by simp
qed

lemma dedup_log_requirements: "dedup [log1, log2, log3] = [log1]"
proof -
  have a: "dedup [log1] = [log1]" by (rule dedup_single)
  have "\<not> accepts ([] @ [log1]) log2"
    unfolding accepts_eval
    by (simp add: norm_of_def log1_def log2_def sample_similar accepts_eval(1))
  then have b: "dedup [log1, log2] = [log1]"
    using dedup_snoc[of "[log1]" log2] a by simp
  have "\<not> accepts ([] @ [log1]) log3"
    unfolding accepts_eval
    by (simp add: norm_of_def log1_def log3_def sample_similar accepts_eval(1))
  then show ?thesis
    using dedup_snoc[of "[log1, log2]" log3] b by simp
qed

lemma sample_jaccard:
  "jaccard ''The system must log all errors.'' ''The system must log errors'' = 5 / 6"
  "jaccard ''The system must validate input'' ''The system must encrypt data'' = 3 / 7"
  "jaccard ''The system must log errors'' ''The system must log'' = 4 / 5"
  "jaccard ''the system must log errors.'' ''The system must log'' = 4 / 5"
  by (simp_all add: jaccard_def word_set_def sample_norms sample_words card_insert_if)

lemma dedup_boundary_requirements: "dedup [log0, log1, log1_again] = [log0]"
proof -
  have a: "dedup [log0] = [log0]" by (rule dedup_single)
  have "\<not> accepts ([] @ [log0]) log1"
    unfolding accepts_eval
    by (simp add: norm_of_def log0_def log1_def sample_similar accepts_eval(1))
  then have b: "dedup [log0, log1] = [log0]"
    using dedup_snoc[of "[log0]" log1] a by simp
  have "\<not> accepts ([] @ [log0]) log1_again"
    unfolding accepts_eval
    by (simp add: norm_of_def log0_def log1_again_def sample_similar accepts_eval(1))
  then show ?thesis
    using dedup_snoc[of "[log0, log1]" log1_again] b by simp
qed

lemma similar_iff_jaccard: "are_similar a b (8 / 10) \<longleftrightarrow> jaccard a b \<ge> 8 / 10"
proof
  assume "are_similar a b (8 / 10)"
  then show "jaccard a b \<ge> 8 / 10" by (simp add: are_similar_iff)
next
  assume h: "jaccard a b \<ge> 8 / 10"
  then have "jaccard a b > 0" by simp
  then have "word_set a \<noteq> {} \<and> word_set b \<noteq> {}" by (rule jaccard_above)
  with h show "are_similar a b (8 / 10)" by (simp add: are_similar_iff)
qed

lemma accepts_iff:
  "accepts K x \<longleftrightarrow>
     \<not> (\<exists>k\<in>set K. norm_of k = norm_of x \<or> jaccard (req_text x) (req_text k) \<ge> 8 / 10)"
proof -
  have "norm_of x \<in> norm_of ` set K \<longleftrightarrow> (\<exists>k\<in>set K. norm_of k = norm_of x)"
  proof
    assume "norm_of x \<in> norm_of ` set K"
    then obtain k where "k \<in> set K" "norm_of x = norm_of k" by (rule imageE)
    then show "\<exists>k\<in>set K. norm_of k = norm_of x" by (intro bexI[of _ k]) simp_all
  next
    assume "\<exists>k\<in>set K. norm_of k = norm_of x"
    then obtain k where "k \<in> set K" "norm_of k = norm_of x" by (rule bexE)
    then show "norm_of x \<in> norm_of ` set K" by (intro image_eqI[of _ _ k]) simp_all
  qed
  then show ?thesis
    unfolding accepts_def is_similar_to_any_iff similar_iff_jaccard by blast
qed

text \<open>
  Claim C6, as stated, fails: of the group of \<open>log1\<close> and \<open>log1_again\<close>, two requirements
  from different files with the same normalized text, no representative is kept,
  although their Jaccard similarity to the requirement \<open>log0\<close> kept before them does not
  exceed 0.8: it is exactly 4/5, and the comparison of the source is \<open>>=\<close>.
\<close>

theorem deduplicate_requirements_group_counterexample:
  "deduplicate_requirements [log0, log1, log1_again] = [log0] \<and>
   norm_of log1 = norm_of log1_again \<and>
   source_file log1 \<noteq> source_file log1_again \<and>
   jaccard (req_text log1) (req_text log0) = 8 / 10 \<and>
   jaccard (req_text log1_again) (req_text log0) = 8 / 10 \<and>
   filter (\<lambda>k. norm_of k = norm_of log1) (deduplicate_requirements [log0, log1, log1_again]) = []"
  by (simp add: deduplicate_requirements_eq dedup_boundary_requirements)
     (simp add: norm_of_def log0_def log1_def log1_again_def sample_norms sample_jaccard)

text \<open>
  Claim C6, amended. \<open>deduplicate_requirements\<close> keeps at most one representative of any
  group of requirements whose texts are identical after normalization: the normalized
  texts of the kept requirements are distinct. A requirement is dropped exactly when an
  already-kept requirement has its normalized text or a Jaccard similarity of at least
  0.8 to it, and is appended to the kept ones otherwise. So every requirement of the
  input has a kept requirement with its normalized text, unless its similarity to a kept
  requirement is at least 0.8: a group keeps exactly one representative unless its text
  is such a near-duplicate, and then it keeps none. Of two requirements with the same
  normalized text alone, whatever their source files, the first is kept.
\<close>

theorem deduplicate_requirements_groups:
  "distinct (map norm_of (deduplicate_requirements rs)) \<and>
   (\<forall>r\<in>set rs.
      (\<exists>k\<in>set (deduplicate_requirements rs). norm_of k = norm_of r) \<or>
      (\<exists>k\<in>set (deduplicate_requirements rs). jaccard (req_text r) (req_text k) \<ge> 8 / 10)) \<and>
   (\<forall>a b. norm_of a = norm_of b \<longrightarrow> deduplicate_requirements [a, b] = [a]) \<and>
   (\<forall>x. deduplicate_requirements (rs @ [x]) =
      (if \<exists>k\<in>set (deduplicate_requirements rs).
            norm_of k = norm_of x \<or> jaccard (req_text x) (req_text k) \<ge> 8 / 10
       then deduplicate_requirements rs
       else deduplicate_requirements rs @ [x]))"
proof (intro conjI allI impI ballI)
  show "distinct (map norm_of (deduplicate_requirements rs))"
    by (simp add: deduplicate_requirements_eq dedup_distinct)
next
  fix r assume "r \<in> set rs"
  then show "(\<exists>k\<in>set (deduplicate_requirements rs). norm_of k = norm_of r) \<or>
      (\<exists>k\<in>set (deduplicate_requirements rs). jaccard (req_text r) (req_text k) \<ge> 8 / 10)"
    unfolding deduplicate_requirements_eq similar_iff_jaccard[symmetric] by (rule dedup_cover)
next
  fix a b :: extracted_requirement
  assume "norm_of a = norm_of b"
  then show "deduplicate_requirements [a, b] = [a]"
    unfolding deduplicate_requirements_eq using dedup_same_norm[of "[b]" a] by simp
next
  fix x :: extracted_requirement
  show "deduplicate_requirements (rs @ [x]) =
      (if \<exists>k\<in>set (deduplicate_requirements rs).
            norm_of k = norm_of x \<or> jaccard (req_text x) (req_text k) \<ge> 8 / 10
       then deduplicate_requirements rs
       else deduplicate_requirements rs @ [x])"
    unfolding deduplicate_requirements_eq dedup_snoc accepts_iff by simp
qed

text \<open>
  The deduplication test of \<open>test_basic_functionality\<close>, and \<open>log1\<close> after \<open>log0\<close>, whose
  similarity is exactly 4/5.
\<close>

theorem deduplicate_requirements_groups_witness:
  "deduplicate_requirements [validate1, validate2, encrypt3] = [validate1, encrypt3] \<and>
   distinct (map norm_of [validate1, encrypt3]) \<and>
   norm_of validate1 = norm_of validate2 \<and>
   deduplicate_requirements [validate1, validate2] = [validate1] \<and>
   log0 \<in> set (deduplicate_requirements [log0]) \<and>
   jaccard (req_text log1) (req_text log0) \<ge> 8 / 10 \<and>
   deduplicate_requirements ([log0] @ [log1]) = deduplicate_requirements [log0]"
proof -
  have run: "deduplicate_requirements [validate1, validate2, encrypt3] = [validate1, encrypt3]"
    by (simp add: deduplicate_requirements_eq dedup_test_requirements)
  have same: "norm_of validate1 = norm_of validate2"
    by (simp add: norm_of_def validate1_def validate2_def)
  have kept: "log0 \<in> set (deduplicate_requirements [log0])"
    by (simp add: deduplicate_requirements_eq dedup_single)
  have near: "jaccard (req_text log1) (req_text log0) \<ge> 8 / 10"
    by (simp add: log0_def log1_def sample_jaccard)
  from deduplicate_requirements_groups[of "[validate1, validate2, encrypt3]"] run
  have c1: "distinct (map norm_of [validate1, encrypt3])" by simp
  from deduplicate_requirements_groups[of "[log0]"] same
  have c2: "deduplicate_requirements [validate1, validate2] = [validate1]" by blast
  from deduplicate_requirements_groups[of "[log0]"]
  have "deduplicate_requirements ([log0] @ [log1]) =
      (if \<exists>k\<in>set (deduplicate_requirements [log0]).
            norm_of k = norm_of log1 \<or> jaccard (req_text log1) (req_text k) \<ge> 8 / 10
       then deduplicate_requirements [log0]
       else deduplicate_requirements [log0] @ [log1])" by blast
  moreover have "\<exists>k\<in>set (deduplicate_requirements [log0]).
      norm_of k = norm_of log1 \<or> jaccard (req_text log1) (req_text k) \<ge> 8 / 10"
    using kept near by blast
  ultimately have c3:
    "deduplicate_requirements ([log0] @ [log1]) = deduplicate_requirements [log0]"
    by simp
  show ?thesis using run c1 same c2 kept near c3 by blast
qed

text \<open>
  Claim C10. \<open>deduplicate_requirements\<close> is order-preserving and idempotent: its output
  is a subsequence of the input; a retained requirement is retained at its first
  occurrence, where it is appended to what the requirements before it gave, and the
  output goes on from there; two different retained requirements have different
  normalized texts and a Jaccard similarity below 0.8; and deduplicating the output
  gives the output back.
\<close>

theorem deduplicate_requirements_idempotent:
  "subseq (deduplicate_requirements rs) rs \<and>
   (\<forall>as r bs. rs = as @ r # bs \<and> r \<notin> set as \<and> r \<in> set (deduplicate_requirements rs) \<longrightarrow>
      deduplicate_requirements (as @ [r]) = deduplicate_requirements as @ [r] \<and>
      prefix (deduplicate_requirements as @ [r]) (deduplicate_requirements rs)) \<and>
   (\<forall>a\<in>set (deduplicate_requirements rs). \<forall>b\<in>set (deduplicate_requirements rs).
      a \<noteq> b \<longrightarrow> norm_of a \<noteq> norm_of b \<and> jaccard (req_text a) (req_text b) < 8 / 10) \<and>
   deduplicate_requirements (deduplicate_requirements rs) = deduplicate_requirements rs"
proof (intro conjI allI impI ballI)
  show "subseq (deduplicate_requirements rs) rs"
    by (simp add: deduplicate_requirements_eq dedup_subseq)
next
  fix as r bs
  assume h: "rs = as @ r # bs \<and> r \<notin> set as \<and> r \<in> set (deduplicate_requirements rs)"
  then have first: "dedup (as @ [r]) = dedup as @ [r]"
    using dedup_first_occurrence[of r as bs] by (auto simp: deduplicate_requirements_eq)
  then show "deduplicate_requirements (as @ [r]) = deduplicate_requirements as @ [r]"
    by (simp add: deduplicate_requirements_eq)
  have "prefix (dedup (as @ [r])) (dedup ((as @ [r]) @ bs))" by (rule dedup_prefix)
  then show "prefix (deduplicate_requirements as @ [r]) (deduplicate_requirements rs)"
    using h first by (simp add: deduplicate_requirements_eq)
next
  fix a b
  assume h: "a \<in> set (deduplicate_requirements rs)" "b \<in> set (deduplicate_requirements rs)"
    "a \<noteq> b"
  then show "norm_of a \<noteq> norm_of b"
    unfolding deduplicate_requirements_eq by (rule dedup_norm_inj)
  from h have "\<not> are_similar (req_text a) (req_text b) (8 / 10)"
    unfolding deduplicate_requirements_eq by (rule dedup_not_similar)
  then show "jaccard (req_text a) (req_text b) < 8 / 10"
    using not_similar_below by simp
next
  show "deduplicate_requirements (deduplicate_requirements rs) = deduplicate_requirements rs"
    by (simp add: deduplicate_requirements_eq dedup_idem)
qed

text \<open>
  On the requirements of the test: the duplicate is dropped, the two kept requirements
  stay in their order, their similarity is 3/7, and a second pass changes nothing.
\<close>

theorem deduplicate_requirements_idempotent_witness:
  "deduplicate_requirements [validate1, validate2, encrypt3] = [validate1, encrypt3] \<and>
   subseq [validate1, encrypt3] [validate1, validate2, encrypt3] \<and>
   deduplicate_requirements ([validate1, validate2] @ [encrypt3])
     = deduplicate_requirements [validate1, validate2] @ [encrypt3] \<and>
   norm_of validate1 \<noteq> norm_of encrypt3 \<and>
   jaccard (req_text validate1) (req_text encrypt3) < 8 / 10 \<and>
   deduplicate_requirements [validate1, encrypt3] = [validate1, encrypt3]"
proof -
  let ?rs = "[validate1, validate2, encrypt3]"
  have run: "deduplicate_requirements ?rs = [validate1, encrypt3]"
    by (simp add: deduplicate_requirements_eq dedup_test_requirements)
  have ne: "validate1 \<noteq> encrypt3"
    by (simp add: validate1_def encrypt3_def)
  have split: "?rs = [validate1, validate2] @ encrypt3 # []" by simp
  have fresh: "encrypt3 \<notin> set [validate1, validate2]"
    by (simp add: validate1_def validate2_def encrypt3_def)
  note inst = deduplicate_requirements_idempotent[of ?rs, unfolded run]
  from inst have c1: "subseq [validate1, encrypt3] ?rs" by blast
  from inst split fresh
  have c2: "deduplicate_requirements ([validate1, validate2] @ [encrypt3])
     = deduplicate_requirements [validate1, validate2] @ [encrypt3]"
    by (metis list.set_intros(1,2))
  from inst ne have c3: "norm_of validate1 \<noteq> norm_of encrypt3 \<and>
      jaccard (req_text validate1) (req_text encrypt3) < 8 / 10"
    by (metis list.set_intros(1,2))
  from inst have c4: "deduplicate_requirements [validate1, encrypt3] = [validate1, encrypt3]"
    by blast
  show ?thesis using run c1 c2 c3 c4 by blast
qed

section \<open>Formatting of requirements\<close>

lemma digits_one: "digits (Suc 0) = ''1''"
  by code_simp

text \<open>
  Claim C7 says that every input requirement appears in the document of
  \<open>format_as_ears\<close> with its source file, line and confidence. The function groups the
  requirements by their three types and renders the EARS group only: for the general
  requirement of its own test, found in \<open>test2.md\<close> at line 2, the document is the
  heading alone, with a total of 1, and has neither the text nor the provenance of the
  requirement.
\<close>

theorem format_as_ears_omits_general:
  "format_as_ears now fmt2f [validate2] =
     join_lines
       [''# Requirements Aggregate'',
        '''',
        ''This document contains all requirements extracted from the project documentation,'',
        ''formatted in EARS (Easy Approach to Requirements Syntax) format.'',
        '''',
        ''**Generated:** '' @ now,
        ''**Total Requirements:** 1'',
        '''']"
  by (simp add: format_as_ears_def validate2_def Let_def digits_one)

section \<open>The classifier\<close>












section \<open>The structure validator\<close>

lemma compliance_values:
  "generate_compliance_score 0 0 = 1"
  "generate_compliance_score n n = 1"
  "generate_compliance_score 10 7 = 7 / 10"
  by (simp_all add: generate_compliance_score_def Let_def)

lemma compliance_formula:
  "generate_compliance_score (existing + missing) existing =
     (if existing = 0 \<and> missing = 0 then 1 else of_nat existing / of_nat (existing + missing))"
  by (simp add: generate_compliance_score_def Let_def)

lemma compliance_one_iff:
  "generate_compliance_score (existing + missing) existing = 1 \<longleftrightarrow> missing = 0"
  by (auto simp: generate_compliance_score_def Let_def)

text \<open>
  Claim C9. \<open>generate_compliance_score\<close> is 1.0 at (0, 0) and at (n, n) for every n, and
  0.7 at (10, 7); with the existing directories as the found ones and the missing
  directories as the rest of the expected ones, it is existing / (existing + missing),
  and 1.0 when both are zero; and it is 1.0 exactly when nothing expected is missing.
\<close>

theorem generate_compliance_score_values:
  "generate_compliance_score 0 0 = 1 \<and>
   (\<forall>n. generate_compliance_score n n = 1) \<and>
   generate_compliance_score 10 7 = 7 / 10 \<and>
   (\<forall>existing missing.
      generate_compliance_score (existing + missing) existing =
        (if existing = 0 \<and> missing = 0 then 1
         else of_nat existing / of_nat (existing + missing))) \<and>
   (\<forall>existing missing.
      generate_compliance_score (existing + missing) existing = 1 \<longleftrightarrow> missing = 0)"
  using compliance_values compliance_formula compliance_one_iff by blast

text \<open>Seven directories found of ten, and five of five.\<close>

theorem generate_compliance_score_values_witness:
  "generate_compliance_score (7 + 3) 7 = 7 / 10 \<and>
   generate_compliance_score 5 5 = 1 \<and>
   generate_compliance_score (7 + 3) 7 \<noteq> 1"
proof -
  note inst = generate_compliance_score_values
  from inst have a: "generate_compliance_score (7 + 3) 7 =
        (if (7::nat) = 0 \<and> (3::nat) = 0 then 1 else of_nat 7 / of_nat (7 + 3))"
    by blast
  from inst have b: "generate_compliance_score 5 5 = 1" by blast
  from inst have c: "generate_compliance_score (7 + 3) 7 = 1 \<longleftrightarrow> (3::nat) = 0" by blast
  show ?thesis using a b c by simp
qed

end
